theory Spec2Isabelle
  imports
    Main
    "HOL-Library.Word"
    "HOL-Library.AList"
    "HOL-Library.Char_ord"
    "HOL-Library.List_Lexorder"
begin

unbundle bit_operations_syntax

section \<open>Python values and strings\<close>

text \<open>
  A Python \<open>str\<close> is modelled as an Isabelle \<open>string\<close>: the list of its code points,
  each below 256 (an Isabelle \<open>char\<close> has eight bits).  \<open>len\<close> is \<open>length\<close>, \<open>+\<close> is
  \<open>@\<close>.  A value of type \<open>Any\<close> (a cell of a row, an entry of a normalization map) is a
  \<open>pyval\<close>: \<open>None\<close>, a \<open>str\<close>, an \<open>int\<close>, or any other object (a float, a date, a
  datetime), which is represented by the text \<open>str()\<close> gives for it.
\<close>

datatype pyval = VNone | VStr string | VInt int | VObj string

text \<open>A \<open>dict\<close> with string keys: its items in insertion order; the keys are distinct.\<close>

type_synonym pydict = "(string \<times> pyval) list"

definition digit_char :: "nat \<Rightarrow> char" where
  "digit_char n = ''0123456789abcdef'' ! (n mod 16)"

fun show_nat :: "nat \<Rightarrow> string" where
  "show_nat n = (if n < 10 then [digit_char n] else show_nat (n div 10) @ [digit_char (n mod 10)])"

declare show_nat.simps [simp del]

definition show_int :: "int \<Rightarrow> string" where
  "show_int i = (if i < 0 then CHR ''-'' # show_nat (nat (- i)) else show_nat (nat i))"

text \<open>\<open>str(value)\<close>.\<close>

fun py_str :: "pyval \<Rightarrow> string" where
  "py_str VNone = ''None''"
| "py_str (VStr s) = s"
| "py_str (VInt i) = show_int i"
| "py_str (VObj s) = s"

text \<open>
  \<open>str.isspace\<close> on one code point below 256: the characters \<open>str.strip()\<close> removes
  (tab, line feed, vertical tab, form feed, carriage return, the four separators
  0x1c..0x1f, space, next line 0x85 and no-break space 0xa0).
\<close>

definition py_isspace :: "char \<Rightarrow> bool" where
  "py_isspace c = ((of_char c :: nat) \<in> {9, 10, 11, 12, 13, 28, 29, 30, 31, 32, 133, 160})"

text \<open>\<open>s.strip()\<close>.\<close>

definition py_strip :: "string \<Rightarrow> string" where
  "py_strip s = rev (dropWhile py_isspace (rev (dropWhile py_isspace s)))"


text \<open>The slice \<open>xs[:k]\<close>: a negative \<open>k\<close> counts from the end.\<close>

definition py_slice_to :: "'a list \<Rightarrow> int \<Rightarrow> 'a list" where
  "py_slice_to xs k = (if 0 \<le> k then take (nat k) xs else take (length xs - nat (- k)) xs)"

text \<open>The truth value of an \<open>Optional[str]\<close>: \<open>None\<close> and the empty string are false.\<close>

definition str_truthy :: "string option \<Rightarrow> bool" where
  "str_truthy s = (case s of None \<Rightarrow> False | Some t \<Rightarrow> t \<noteq> [])"

text \<open>
  \<open>d[k] = v\<close> on a dict that may or may not hold \<open>k\<close> is \<open>AList.update k v d\<close>: an existing
  key keeps its place, a new key goes last.  \<open>list(dict.fromkeys(xs))\<close> inserts the keys
  one after the other; a key already there is left where it is.
\<close>

definition append_new :: "'a \<Rightarrow> 'a list \<Rightarrow> 'a list" where
  "append_new x ys = (if x \<in> set ys then ys else ys @ [x])"

definition fromkeys :: "'a list \<Rightarrow> 'a list" where
  "fromkeys xs = fold append_new xs []"


section \<open>helpers/hashing.py\<close>

subsection \<open>SHA-256 (hashlib.sha256, FIPS 180-4) on 32-bit words\<close>

type_synonym w32 = "32 word"

definition rotr :: "nat \<Rightarrow> w32 \<Rightarrow> w32" where
  "rotr n x = (drop_bit n x) OR (push_bit (32 - n) x)"

definition Ch :: "w32 \<Rightarrow> w32 \<Rightarrow> w32 \<Rightarrow> w32" where
  "Ch x y z = (x AND y) XOR (NOT x AND z)"

definition Maj :: "w32 \<Rightarrow> w32 \<Rightarrow> w32 \<Rightarrow> w32" where
  "Maj x y z = (x AND y) XOR (x AND z) XOR (y AND z)"

definition bsig0 :: "w32 \<Rightarrow> w32" where
  "bsig0 x = rotr 2 x XOR rotr 13 x XOR rotr 22 x"

definition bsig1 :: "w32 \<Rightarrow> w32" where
  "bsig1 x = rotr 6 x XOR rotr 11 x XOR rotr 25 x"

definition ssig0 :: "w32 \<Rightarrow> w32" where
  "ssig0 x = rotr 7 x XOR rotr 18 x XOR drop_bit 3 x"

definition ssig1 :: "w32 \<Rightarrow> w32" where
  "ssig1 x = rotr 17 x XOR rotr 19 x XOR drop_bit 10 x"

definition K256 :: "w32 list" where
  "K256 = [
    0x428A2F98, 0x71374491, 0xB5C0FBCF, 0xE9B5DBA5, 0x3956C25B, 0x59F111F1, 0x923F82A4, 0xAB1C5ED5,
    0xD807AA98, 0x12835B01, 0x243185BE, 0x550C7DC3, 0x72BE5D74, 0x80DEB1FE, 0x9BDC06A7, 0xC19BF174,
    0xE49B69C1, 0xEFBE4786, 0x0FC19DC6, 0x240CA1CC, 0x2DE92C6F, 0x4A7484AA, 0x5CB0A9DC, 0x76F988DA,
    0x983E5152, 0xA831C66D, 0xB00327C8, 0xBF597FC7, 0xC6E00BF3, 0xD5A79147, 0x06CA6351, 0x14292967,
    0x27B70A85, 0x2E1B2138, 0x4D2C6DFC, 0x53380D13, 0x650A7354, 0x766A0ABB, 0x81C2C92E, 0x92722C85,
    0xA2BFE8A1, 0xA81A664B, 0xC24B8B70, 0xC76C51A3, 0xD192E819, 0xD6990624, 0xF40E3585, 0x106AA070,
    0x19A4C116, 0x1E376C08, 0x2748774C, 0x34B0BCB5, 0x391C0CB3, 0x4ED8AA4A, 0x5B9CCA4F, 0x682E6FF3,
    0x748F82EE, 0x78A5636F, 0x84C87814, 0x8CC70208, 0x90BEFFFA, 0xA4506CEB, 0xBEF9A3F7, 0xC67178F2]"

type_synonym sha_state = "w32 \<times> w32 \<times> w32 \<times> w32 \<times> w32 \<times> w32 \<times> w32 \<times> w32"

definition H256 :: sha_state where
  "H256 = (0x6A09E667, 0xBB67AE85, 0x3C6EF372, 0xA54FF53A,
           0x510E527F, 0x9B05688C, 0x1F83D9AB, 0x5BE0CD19)"

text \<open>\<open>s.encode("utf-8")\<close> for code points below 256: one byte below 128, two from there.\<close>

definition utf8_encode :: "string \<Rightarrow> nat list" where
  "utf8_encode s = concat (map (\<lambda>c. let n = (of_char c :: nat) in
       if n < 128 then [n] else [192 + n div 64, 128 + n mod 64]) s)"

definition sha_pad :: "nat list \<Rightarrow> nat list" where
  "sha_pad m = m @ [128] @ replicate ((119 - length m mod 64) mod 64) 0
     @ map (\<lambda>i. (8 * length m) div 256 ^ i mod 256) [7, 6, 5, 4, 3, 2, 1, 0]"

definition be32 :: "nat list \<Rightarrow> w32" where
  "be32 bs = of_nat (foldl (\<lambda>acc b. 256 * acc + b) 0 bs)"

definition sha_blocks :: "nat list \<Rightarrow> w32 list list" where
  "sha_blocks bs = map (\<lambda>i. map (\<lambda>j. be32 (take 4 (drop (64 * i + 4 * j) bs))) [0..<16])
                       [0..<length bs div 64]"

fun sha_extend :: "nat \<Rightarrow> w32 list \<Rightarrow> w32 list" where
  "sha_extend 0 ws = ws"
| "sha_extend (Suc n) ws =
     sha_extend n (ws @ [ssig1 (ws ! (length ws - 2)) + ws ! (length ws - 7)
                         + ssig0 (ws ! (length ws - 15)) + ws ! (length ws - 16)])"

fun sha_round :: "w32 \<times> w32 \<Rightarrow> sha_state \<Rightarrow> sha_state" where
  "sha_round (k, w) (a, b, c, d, e, f, g, h) =
     (let t1 = h + bsig1 e + Ch e f g + k + w;
          t2 = bsig0 a + Maj a b c
      in (t1 + t2, a, b, c, d + t1, e, f, g))"

fun sha_add :: "sha_state \<Rightarrow> sha_state \<Rightarrow> sha_state" where
  "sha_add (a, b, c, d, e, f, g, h) (a', b', c', d', e', f', g', h') =
     (a + a', b + b', c + c', d + d', e + e', f + f', g + g', h + h')"

definition sha_compress :: "w32 list \<Rightarrow> sha_state \<Rightarrow> sha_state" where
  "sha_compress blk st = sha_add st (fold sha_round (zip K256 (sha_extend 48 blk)) st)"

definition hex32 :: "w32 \<Rightarrow> string" where
  "hex32 w = map (\<lambda>i. digit_char (unat (drop_bit (4 * i) w))) [7, 6, 5, 4, 3, 2, 1, 0]"

fun hex_state :: "sha_state \<Rightarrow> string" where
  "hex_state (a, b, c, d, e, f, g, h) =
     hex32 a @ hex32 b @ hex32 c @ hex32 d @ hex32 e @ hex32 f @ hex32 g @ hex32 h"

text \<open>\<open>hashlib.sha256(bs).hexdigest()\<close>.\<close>

definition sha256_hexdigest :: "nat list \<Rightarrow> string" where
  "sha256_hexdigest bs = hex_state (fold sha_compress (sha_blocks (sha_pad bs)) H256)"

subsection \<open>hash_value\<close>

text \<open>
  \<open>hash_value(value, *, salt=None, length=12)\<close>: \<open>if not salt: return value\<close>, else the first
  \<open>length\<close> characters of the hex digest of \<open>salt + value\<close>.
\<close>

definition hash_value :: "string \<Rightarrow> string option \<Rightarrow> int \<Rightarrow> string" where
  "hash_value v salt len =
     (if \<not> str_truthy salt then v
      else py_slice_to (sha256_hexdigest (utf8_encode (the salt @ v))) len)"

text \<open>No caller in the repository passes \<open>length\<close>: it is always the default.\<close>

definition default_length :: int where
  "default_length = 12"


section \<open>schemas/base_schema_out.py\<close>

text \<open>
  What \<open>model_validate\<close> is given: a \<open>dict\<close>, or another object (a database row mapping,
  say), written with the items it holds.  A model instance is the list of its declared
  fields with their values, in declaration order, and the set of fields that were set.
\<close>

datatype pydata = DictData pydict | OtherData pydict

record model =
  field_values :: pydict
  fields_set :: "string set"

text \<open>
  A subclass of \<open>BaseSchema\<close>: its three class variables, and pydantic's own validation of
  the class (coercion of every field to its declared type, then the class's
  \<open>mode="after"\<close> validators), which either raises with a message or returns the instance.
  \<open>hashable_fields\<close> is a set; it is listed in the order a \<open>for\<close> loop visits it.
\<close>

record schema =
  hashable_fields :: "string list"
  excluded_by_default :: "string set"
  normalization_maps :: "(string \<times> pydict) list"
  structural :: "pydata \<Rightarrow> string + model"

text \<open>
  \<open>_normalize_value\<close>.  \<open>casefold\<close> stands for \<open>str.casefold\<close> (full Unicode case folding),
  which every function below that normalizes takes as its first argument.
  \<open>folded_map\<close> is the dict comprehension: a later item overwrites an earlier one with the
  same folded key.
\<close>

definition folded_map :: "(string \<Rightarrow> string) \<Rightarrow> pydict \<Rightarrow> (string \<rightharpoonup> pyval)" where
  "folded_map casefold mapping =
     fold (\<lambda>(k, v) m. if k \<noteq> ''__default__'' then m(casefold (py_strip k) \<mapsto> v) else m)
          mapping Map.empty"


definition lookup_folded :: "(string \<Rightarrow> string) \<Rightarrow> pydict \<Rightarrow> pyval \<Rightarrow> pyval" where
  "lookup_folded casefold mapping v =
     (case folded_map casefold mapping (casefold (py_strip (py_str v))) of
        Some r \<Rightarrow> r
      | None \<Rightarrow> (case map_of mapping ''__default__'' of Some d \<Rightarrow> d | None \<Rightarrow> v))"

definition normalize_value :: "(string \<Rightarrow> string) \<Rightarrow> schema \<Rightarrow> string \<Rightarrow> pyval \<Rightarrow> pyval" where
  "normalize_value casefold cls field v =
     (case map_of (normalization_maps cls) field of
        None \<Rightarrow> v
      | Some mapping \<Rightarrow>
          (case v of
             VNone \<Rightarrow> VNone
           | VStr s \<Rightarrow> if py_strip s = [] then VNone else lookup_folded casefold mapping v
           | _ \<Rightarrow> lookup_folded casefold mapping v))"

text \<open>\<open>_apply_normalization_maps\<close>, the \<open>mode="before"\<close> validator.\<close>

definition apply_normalization_maps :: "(string \<Rightarrow> string) \<Rightarrow> schema \<Rightarrow> pydata \<Rightarrow> pydata" where
  "apply_normalization_maps casefold cls data =
     (case data of
        OtherData d \<Rightarrow> OtherData d
      | DictData d \<Rightarrow>
          if normalization_maps cls = [] then DictData d
          else DictData
            (fold (\<lambda>field new_data.
                     case map_of new_data field of
                       None \<Rightarrow> new_data
                     | Some v \<Rightarrow> AList.update field (normalize_value casefold cls field v) new_data)
                  (map fst (normalization_maps cls)) d))"

text \<open>\<open>cls.model_validate(row)\<close>: the before-validator, then pydantic's validation.\<close>

definition model_validate :: "(string \<Rightarrow> string) \<Rightarrow> schema \<Rightarrow> pydata \<Rightarrow> string + model" where
  "model_validate casefold cls data = structural cls (apply_normalization_maps casefold cls data)"

definition opt_set :: "string set option \<Rightarrow> string set" where
  "opt_set s = (case s of None \<Rightarrow> {} | Some t \<Rightarrow> t)"

definition effective_exclude :: "schema \<Rightarrow> string set option \<Rightarrow> string set option \<Rightarrow> string set" where
  "effective_exclude cls incl excl = (excluded_by_default cls \<union> opt_set excl) - opt_set incl"

text \<open>
  What the serializer's \<open>handler(self)\<close> returns under
  \<open>model_dump(exclude_none=True, exclude_unset=True, exclude=...)\<close>: the fields that were
  set, are not \<open>None\<close> and are not excluded, in declaration order.
\<close>

definition handler_dump :: "model \<Rightarrow> string set \<Rightarrow> pydict" where
  "handler_dump m excl =
     filter (\<lambda>(k, v). k \<in> fields_set m \<and> v \<noteq> VNone \<and> k \<notin> excl) (field_values m)"

text \<open>\<open>_apply_hashing\<close>, the wrap serializer; \<open>salt\<close> is \<open>(info.context or {}).get("salt")\<close>.\<close>

definition hash_field :: "string option \<Rightarrow> string \<Rightarrow> pydict \<Rightarrow> pydict" where
  "hash_field salt field data =
     (case map_of data field of
        Some (VStr val) \<Rightarrow> AList.update field (VStr (hash_value val salt default_length)) data
      | _ \<Rightarrow> data)"

definition apply_hashing :: "schema \<Rightarrow> string option \<Rightarrow> pydict \<Rightarrow> pydict" where
  "apply_hashing cls salt data =
     (if \<not> str_truthy salt \<or> hashable_fields cls = [] then data
      else fold (hash_field salt) (hashable_fields cls) data)"

definition model_dump :: "schema \<Rightarrow> model \<Rightarrow> string set \<Rightarrow> string option \<Rightarrow> pydict" where
  "model_dump cls m excl context_salt = apply_hashing cls context_salt (handler_dump m excl)"

definition dump_clean :: "schema \<Rightarrow> model \<Rightarrow> string set option \<Rightarrow> string set option \<Rightarrow> pydict" where
  "dump_clean cls m incl excl = model_dump cls m (effective_exclude cls incl excl) None"

definition dump_hashed ::
  "schema \<Rightarrow> model \<Rightarrow> string \<Rightarrow> string set option \<Rightarrow> string set option \<Rightarrow> pydict" where
  "dump_hashed cls m salt incl excl = model_dump cls m (effective_exclude cls incl excl) (Some salt)"


section \<open>schemas/demographics.py\<close>

text \<open>\<open>DemographicsOut\<close>, over pydantic's validation of its fields and \<open>_compute_ages\<close>.\<close>

definition DemographicsOut :: "(pydata \<Rightarrow> string + model) \<Rightarrow> schema" where
  "DemographicsOut validate =
     \<lparr> hashable_fields = [''case_number''],
       excluded_by_default = {''patient_date_of_birth''},
       normalization_maps =
         [(''patient_sex'',
           [(''m'', VStr ''M''), (''male'', VStr ''M''),
            (''m'' @ [CHR 0xC3, CHR 0xA4] @ ''nnlich'', VStr ''M''),
            (''f'', VStr ''F''), (''female'', VStr ''F''), (''w'', VStr ''F''),
            (''weiblich'', VStr ''F''),
            (''d'', VStr ''D''), (''divers'', VStr ''D''),
            (''u'', VStr ''U''), (''unknown'', VStr ''U''),
            (''__default__'', VStr ''U'')])],
       structural = validate \<rparr>"





section \<open>pipeline/_pipeline_helpers.py\<close>

text \<open>
  \<open>_validate_with_model\<close>.  The loop keeps \<open>cleaned\<close> and \<open>errors\<close>; what the function
  returns is \<open>cleaned\<close>, what it logs at warning level is \<open>validation_warnings errors\<close>.
  (The info line each dump logs is left out.)
\<close>

definition validate_step ::
  "(string \<Rightarrow> string) \<Rightarrow> schema \<Rightarrow> string option \<Rightarrow> string set option \<Rightarrow> string set option \<Rightarrow>
   nat \<times> pydata \<Rightarrow> pydict list \<times> string list \<Rightarrow> pydict list \<times> string list" where
  "validate_step casefold cls hash_salt incl excl =
     (\<lambda>(i, row) (cleaned, errors).
        case model_validate casefold cls row of
          Inl exc \<Rightarrow> (cleaned, errors @ [''row '' @ show_nat i @ '': '' @ exc])
        | Inr obj \<Rightarrow>
            (cleaned @ [if str_truthy hash_salt
                        then dump_hashed cls obj (the hash_salt) incl excl
                        else dump_clean cls obj incl excl],
             errors))"

definition validate_rows ::
  "(string \<Rightarrow> string) \<Rightarrow> schema \<Rightarrow> pydata list \<Rightarrow> string option \<Rightarrow> string set option \<Rightarrow>
   string set option \<Rightarrow> pydict list \<times> string list" where
  "validate_rows casefold cls rows hash_salt incl excl =
     fold (validate_step casefold cls hash_salt incl excl) (enumerate 0 rows) ([], [])"

definition validation_warnings :: "string list \<Rightarrow> string list" where
  "validation_warnings errors =
     (if errors = [] then []
      else map (\<lambda>e. ''validation issue: '' @ e) (take 10 errors)
           @ (if length errors > 10
              then [''... plus '' @ show_nat (length errors - 10) @ '' more validation issues'']
              else []))"

definition validate_with_model ::
  "(string \<Rightarrow> string) \<Rightarrow> schema \<Rightarrow> pydata list \<Rightarrow> string option \<Rightarrow> string set option \<Rightarrow>
   string set option \<Rightarrow> pydict list \<times> string list" where
  "validate_with_model casefold cls rows hash_salt incl excl =
     (let (cleaned, errors) = validate_rows casefold cls rows hash_salt incl excl
      in (cleaned, validation_warnings errors))"

text \<open>
  A \<open>pandas.DataFrame\<close>: its column labels and its rows.  \<open>pd.DataFrame(cleaned)\<close> on a
  list of dicts has the keys as columns, in the order they first appear; \<open>df.loc[:, cols]\<close>
  keeps the rows and the columns \<open>cols\<close>; \<open>pd.DataFrame(columns=cs)\<close> has no row.
\<close>

record dataframe =
  df_columns :: "string list"
  df_rows :: "pydict list"

definition DataFrame :: "pydict list \<Rightarrow> dataframe" where
  "DataFrame records = \<lparr> df_columns = fromkeys (concat (map (map fst) records)), df_rows = records \<rparr>"

definition df_loc :: "dataframe \<Rightarrow> string list \<Rightarrow> dataframe" where
  "df_loc df cols = \<lparr> df_columns = cols, df_rows = map (filter (\<lambda>(k, v). k \<in> set cols)) (df_rows df) \<rparr>"

definition enforce_order :: "dataframe \<Rightarrow> string list option \<Rightarrow> dataframe" where
  "enforce_order df requested =
     (case requested of
        None \<Rightarrow> df
      | Some req \<Rightarrow>
          (let cols = filter (\<lambda>c. c \<in> set (df_columns df)) req
           in if cols \<noteq> [] then df_loc df cols
              else \<lparr> df_columns = req, df_rows = [] \<rparr>))"


section \<open>Errors\<close>

text \<open>
  Every error the pipeline raises itself is a \<open>ValueError\<close>; the constructors tell the
  raise sites apart, under the names of the error taxonomy:
  \<open>UnknownResource r\<close> is \<open>ValueError(f"Unknown resource: {r}")\<close>,
  \<open>InvalidGroupingMode\<close> is \<open>ValueError("by must be 'cases' or 'patients'")\<close>,
  \<open>GroupingModeFieldMismatch\<close> is
  \<open>ValueError("Requested fields require by='cases' for this resource.")\<close>,
  \<open>UnsupportedGrouping r b\<close> is \<open>ValueError(f"Resource '{r}' does not support by='{b}'.")\<close>,
  \<open>UnsupportedOutputFormat f\<close> is \<open>ValueError(f"Unsupported out format: {f}")\<close>,
  \<open>NoAuditSink\<close> is \<open>ValueError("Provide either 'path' or 'stream' for AuditLogger.")\<close>,
  and \<open>RangeStepZero\<close> is what \<open>range(0, n, 0)\<close> raises.
\<close>

datatype error =
    UnknownResource string
  | InvalidGroupingMode
  | GroupingModeFieldMismatch
  | UnsupportedGrouping string string
  | UnsupportedOutputFormat string
  | NoAuditSink
  | RangeStepZero


section \<open>connection/fetcher.py\<close>

text \<open>
  A keyword argument of a query function: \<open>None\<close>, a \<open>str\<close>, \<open>bytes\<close>, a \<open>dict\<close>, a \<open>list\<close>
  or a \<open>tuple\<close> of identifiers, or an object that is no \<open>Sequence\<close> (a set, a generator,
  a number).  The keyword arguments of a call are a map from names to arguments;
  \<open>{**a, **b}\<close> is \<open>a ++ b\<close>.  A query function is given the arguments (and the session)
  and returns its rows.
\<close>

datatype pval = PNone | PStr string | PBytes string | PDict | PList "string list"
  | PTuple "string list" | PObj

type_synonym params = "string \<rightharpoonup> pval"

type_synonym query_func = "params \<Rightarrow> pydata list"

record fetcher =
  func :: query_func
  defaults :: params
  transform :: "(pydata \<Rightarrow> pydata) option"

definition make_fetcher :: "query_func \<Rightarrow> fetcher" where
  "make_fetcher f = \<lparr> func = f, defaults = Map.empty, transform = None \<rparr>"

text \<open>
  What a generator of the fetcher has done once it is exhausted: the rows it yielded, in
  order, the sessions \<open>get_session()\<close> opened, the arguments of every call of the query
  function, in order, and the error that ended it, if one did.
\<close>

record fetched =
  yielded :: "pydata list"
  sessions_opened :: nat
  query_calls :: "params list"
  raised :: "error option"

definition transformed :: "fetcher \<Rightarrow> pydata \<Rightarrow> pydata" where
  "transformed f r = (case transform f of Some t \<Rightarrow> t r | None \<Rightarrow> r)"

definition fetcher_iter :: "fetcher \<Rightarrow> params \<Rightarrow> fetched" where
  "fetcher_iter f overrides =
     (let ps = defaults f ++ overrides
      in \<lparr> yielded = map (transformed f) (func f ps), sessions_opened = 1,
           query_calls = [ps], raised = None \<rparr>)"

text \<open>\<open>d.get(k)\<close>: \<open>None\<close> for a missing key.\<close>

definition param_get :: "params \<Rightarrow> string \<Rightarrow> pval" where
  "param_get d k = (case d k of None \<Rightarrow> PNone | Some v \<Rightarrow> v)"

fun is_batchable_sequence :: "pval \<Rightarrow> bool" where
  "is_batchable_sequence PNone = False"
| "is_batchable_sequence (PStr s) = False"
| "is_batchable_sequence (PBytes s) = False"
| "is_batchable_sequence PDict = False"
| "is_batchable_sequence (PList xs) = True"
| "is_batchable_sequence (PTuple xs) = True"
| "is_batchable_sequence PObj = False"

text \<open>\<open>list(seq)\<close> for a batchable sequence.\<close>

fun seq_items :: "pval \<Rightarrow> string list" where
  "seq_items (PList xs) = xs"
| "seq_items (PTuple xs) = xs"
| "seq_items other = []"

text \<open>\<open>range(0, n, step)\<close>, for \<open>n \<ge> 0\<close>.\<close>

definition py_range :: "nat \<Rightarrow> int \<Rightarrow> error + nat list" where
  "py_range n step =
     (if step = 0 then Inl RangeStepZero
      else if step < 0 then Inr []
      else Inr (map (\<lambda>j. j * nat step) [0..<(n + nat step - 1) div nat step]))"

text \<open>\<open>seq_list[i : i + max_items]\<close>, for the \<open>i\<close> and the positive \<open>max_items\<close> of the loop.\<close>

definition chunk_at :: "string list \<Rightarrow> int \<Rightarrow> nat \<Rightarrow> string list" where
  "chunk_at seq_list max_items i = take (nat max_items) (drop i seq_list)"

definition batched_iter :: "fetcher \<Rightarrow> string \<Rightarrow> int \<Rightarrow> params \<Rightarrow> fetched" where
  "batched_iter f list_param max_items overrides =
     (let seq = (if overrides list_param \<noteq> None then param_get overrides list_param
                 else param_get (defaults f) list_param)
      in if \<not> is_batchable_sequence seq then fetcher_iter f overrides
         else
           (let seq_list = seq_items seq; n = length seq_list
            in if n = 0 \<or> int n \<le> max_items then fetcher_iter f overrides
               else
                 (case py_range n max_items of
                    Inl e \<Rightarrow> \<lparr> yielded = [], sessions_opened = 1, query_calls = [],
                              raised = Some e \<rparr>
                  | Inr starts \<Rightarrow>
                      (let calls = map (\<lambda>i. defaults f
                                     ++ (overrides(list_param \<mapsto> PList (chunk_at seq_list max_items i))))
                                   starts
                       in \<lparr> yielded = concat (map (\<lambda>ps. map (transformed f) (func f ps)) calls),
                            sessions_opened = 1, query_calls = calls, raised = None \<rparr>))))"


text \<open>
  The chunks the loop of \<open>batched_iter\<close> makes for a positive \<open>max_items\<close>:
  \<open>seq_list[i : i + max_items]\<close> for \<open>i\<close> in \<open>range(0, n, max_items)\<close>.
\<close>

definition loop_chunks :: "string list \<Rightarrow> int \<Rightarrow> string list list" where
  "loop_chunks seq_list max_items =
     map (chunk_at seq_list max_items)
         (map (\<lambda>j. j * nat max_items)
              [0..<(length seq_list + nat max_items - 1) div nat max_items])"

text \<open>
  Two query functions for the examples.  The first answers identifier by identifier: one
  row for each of the \<open>patient_ids\<close>, in their order.  The second is a
  \<open>SELECT DISTINCT\<close> of one column, as \<open>fetch_demography_for_patients\<close> issues it for
  \<open>fields=["patient_sex"]\<close>, over patients who all have the same sex.
\<close>

definition per_patient_query :: query_func where
  "per_patient_query ps =
     map (\<lambda>i. DictData [(''patient_id'', VStr i)]) (seq_items (param_get ps ''patient_ids''))"

definition distinct_sex_query :: query_func where
  "distinct_sex_query ps =
     remdups (map (\<lambda>i. DictData [(''patient_sex'', VStr ''M'')])
                  (seq_items (param_get ps ''patient_ids'')))"


section \<open>pipeline/audit_logger.py\<close>

record audit_logger =
  include_id_samples :: bool
  id_sample_size :: int
  id_hash_salt :: string
  hash_ids :: bool

text \<open>
  \<open>AuditLogger.__init__\<close>; \<open>stream\<close> says whether a stream was given (an open text stream is
  true).  \<open>id_hash_salt or ""\<close> is kept as the salt, and \<open>hash_ids\<close> is
  \<open>id_hash_salt is not None\<close>.
\<close>

definition AuditLogger ::
  "string option \<Rightarrow> bool \<Rightarrow> bool \<Rightarrow> int \<Rightarrow> string option \<Rightarrow> error + audit_logger" where
  "AuditLogger path stream incl_samples sample_size salt =
     (if \<not> str_truthy path \<and> \<not> stream then Inl NoAuditSink
      else Inr \<lparr> include_id_samples = incl_samples,
                 id_sample_size = sample_size,
                 id_hash_salt = (if str_truthy salt then the salt else []),
                 hash_ids = (salt \<noteq> None) \<rparr>)"

definition hash_id :: "audit_logger \<Rightarrow> string \<Rightarrow> string" where
  "hash_id logger s = hash_value s (Some (id_hash_salt logger)) default_length"

text \<open>The summary dict: \<open>"count"\<close>, and \<open>"hashed_ids"\<close> or \<open>"ids"\<close> when the key is there.\<close>

record id_summary =
  sum_count :: nat
  sum_hashed_ids :: "string list option"
  sum_ids :: "string list option"

definition summarize_ids :: "audit_logger \<Rightarrow> string list \<Rightarrow> id_summary" where
  "summarize_ids logger ids =
     (let summary = \<lparr> sum_count = length ids, sum_hashed_ids = None, sum_ids = None \<rparr>
      in if include_id_samples logger \<and> ids \<noteq> [] then
           (let sample = py_slice_to ids (id_sample_size logger)
            in if hash_ids logger
               then summary\<lparr> sum_hashed_ids := Some (map (hash_id logger) sample) \<rparr>
               else summary\<lparr> sum_ids := Some sample \<rparr>)
         else summary)"

text \<open>
  The record \<open>log_access\<close> writes as one JSON line.  The time stamp and the duration, read
  from the clock, are left out, and so is \<open>extra\<close>, which \<open>run_resource\<close> never passes.
  \<open>field_list\<close> is the source's \<open>fields\<close>.
\<close>

record audit_record =
  ar_actor :: "string option"
  ar_action :: string
  ar_resource :: string
  ar_by :: string
  ar_ids :: id_summary
  ar_fields_requested :: "string list option"
  ar_fetch_fields :: "string list option"
  ar_include_fields :: "string list option"
  ar_derived_added :: "string list"
  ar_hashed :: bool
  ar_out :: "string option"
  ar_out_format :: "string option"
  ar_rows :: "nat option"

definition log_access ::
  "audit_logger \<Rightarrow> string option \<Rightarrow> string \<Rightarrow> string \<Rightarrow> string \<Rightarrow> string list \<Rightarrow>
   string list option \<Rightarrow> string list option \<Rightarrow> string list option \<Rightarrow> string list \<Rightarrow> bool \<Rightarrow>
   string option \<Rightarrow> string option \<Rightarrow> nat option \<Rightarrow> audit_record" where
  "log_access logger actor action resource by ids field_list fetch_fields include_fields
              derived_added hashed out out_format rows =
     \<lparr> ar_actor = actor, ar_action = action, ar_resource = resource, ar_by = by,
       ar_ids = summarize_ids logger ids,
       ar_fields_requested = field_list, ar_fetch_fields = fetch_fields,
       ar_include_fields = include_fields, ar_derived_added = derived_added,
       ar_hashed = hashed, ar_out = out, ar_out_format = out_format, ar_rows = rows \<rparr>"


section \<open>pipeline/_pipeline_helpers.py: ResourceSpec and _write_df\<close>

text \<open>
  \<open>ResourceSpec\<close>.  Each value of \<open>derived_deps\<close> is a set; it is listed in the order the
  planner's \<open>for dep in ...\<close> visits it.  \<open>fetchers\<close> maps \<open>"cases"\<close> and \<open>"patients"\<close> to
  query functions.
\<close>

record resource_spec =
  schema_cls :: schema
  derived_deps :: "(string \<times> string list) list"
  requires_cases :: "string set"
  fetchers :: "string \<rightharpoonup> query_func"

text \<open>
  \<open>_write_df\<close>: the file it writes, if any.  \<open>suffix\<close> stands for
  \<open>Path(out).suffix.lower().lstrip(".")\<close>.
\<close>

record written =
  w_path :: string
  w_format :: string
  w_frame :: dataframe

definition write_df ::
  "(string \<Rightarrow> string) \<Rightarrow> dataframe \<Rightarrow> string option \<Rightarrow> string option \<Rightarrow> error + written option" where
  "write_df suffix df out out_format =
     (if \<not> str_truthy out then Inr None
      else
        (let fmt = (if str_truthy out_format then the out_format
                    else if suffix (the out) \<noteq> [] then suffix (the out)
                    else ''csv'')
         in if fmt = ''csv'' then Inr (Some \<lparr> w_path = the out, w_format = ''csv'', w_frame = df \<rparr>)
            else if fmt \<in> {''parquet'', ''pq''}
            then Inr (Some \<lparr> w_path = the out, w_format = ''parquet'', w_frame = df \<rparr>)
            else if fmt = ''jsonl''
            then Inr (Some \<lparr> w_path = the out, w_format = ''jsonl'', w_frame = df \<rparr>)
            else Inl (UnsupportedOutputFormat fmt)))"


section \<open>pipeline/extraction_pipeline.py\<close>

text \<open>\<open>spec.derived_deps.get(name, ())\<close>.\<close>

definition deps_of :: "resource_spec \<Rightarrow> string \<Rightarrow> string list" where
  "deps_of spec name = (case map_of (derived_deps spec) name of None \<Rightarrow> [] | Some ds \<Rightarrow> ds)"

text \<open>\<open>_plan_fetch_and_include_for\<close>: \<open>(fetch_fields, include_fields)\<close>, or the error.\<close>

definition plan_fetch_and_include_for ::
  "resource_spec \<Rightarrow> string \<Rightarrow> string list option \<Rightarrow>
   error + (string list option \<times> string list option)" where
  "plan_fetch_and_include_for spec by requested =
     (case requested of
        None \<Rightarrow> Inr (None, None)
      | Some req \<Rightarrow>
          (let requested = fromkeys req
           in if by \<noteq> ''cases'' \<and> requires_cases spec \<inter> set requested \<noteq> {}
              then Inl GroupingModeFieldMismatch
              else
                (let fetch_fields = filter (\<lambda>f. f \<notin> fst ` set (derived_deps spec)) requested
                 in Inr (Some (fold (\<lambda>name ff. fold append_new (deps_of spec name) ff)
                                    requested fetch_fields),
                         Some requested))))"

text \<open>
  What one call of \<open>run_resource\<close> has done when it returns or raises: the table or the
  error, the arguments of every call of the external query function, the warnings
  logged, the file written and the audit records emitted.
\<close>

record run_result =
  outcome :: "error + dataframe"
  queries :: "params list"
  warnings :: "string list"
  files_written :: "written list"
  audit_lines :: "audit_record list"

definition aborted :: "error \<Rightarrow> run_result" where
  "aborted e = \<lparr> outcome = Inl e, queries = [], warnings = [], files_written = [],
                 audit_lines = [] \<rparr>"

text \<open>
  \<open>run_resource\<close> over a registry.  \<open>field_list\<close> is the source's \<open>fields\<close>; \<open>casefold\<close> and
  \<open>suffix\<close> are the two library functions named above.  \<open>run_planned\<close> is the body of
  \<open>run_resource\<close> from the point where the plan is made and the fetcher is chosen:
  fetch (one \<open>fetcher.iter\<close>, consumed to the end), validate, shape, write, audit.
\<close>

definition run_planned ::
  "(string \<Rightarrow> string) \<Rightarrow> (string \<Rightarrow> string) \<Rightarrow> resource_spec \<Rightarrow>
   string \<Rightarrow> string \<Rightarrow> string list \<Rightarrow> string list option \<Rightarrow> string option \<Rightarrow>
   string option \<Rightarrow> string option \<Rightarrow> audit_logger option \<Rightarrow> string option \<Rightarrow>
   string list option \<Rightarrow> string list option \<Rightarrow> query_func \<Rightarrow> run_result" where
  "run_planned casefold suffix spec resource by ids field_list hash_salt out out_format
               audit actor fetch_fields include_fields fetch_func =
     (let ps = [(if by = ''cases'' then ''case_numbers'' else ''patient_ids'') \<mapsto> PList ids,
                ''fields'' \<mapsto> (case fetch_fields of None \<Rightarrow> PNone | Some fs \<Rightarrow> PList fs)];
          got = fetcher_iter (make_fetcher fetch_func) ps;
          (cleaned, logged) =
            validate_with_model casefold (schema_cls spec) (yielded got) hash_salt
              (map_option set include_fields) None;
          df = enforce_order (DataFrame cleaned) include_fields
      in case write_df suffix df out out_format of
           Inl e \<Rightarrow> \<lparr> outcome = Inl e, queries = query_calls got, warnings = logged,
                     files_written = [], audit_lines = [] \<rparr>
         | Inr w \<Rightarrow>
             \<lparr> outcome = Inr df, queries = query_calls got, warnings = logged,
               files_written = (case w of None \<Rightarrow> [] | Some x \<Rightarrow> [x]),
               audit_lines =
                 (case audit of
                    None \<Rightarrow> []
                  | Some logger \<Rightarrow>
                      [log_access logger actor ''fetch'' resource by ids field_list
                         fetch_fields include_fields
                         (sort (remdups (filter
                            (\<lambda>f. f \<notin> set (case field_list of None \<Rightarrow> [] | Some fs \<Rightarrow> fs))
                            (case fetch_fields of None \<Rightarrow> [] | Some fs \<Rightarrow> fs))))
                         (str_truthy hash_salt) out out_format
                         (Some (length (df_rows df)))]) \<rparr>)"

definition run_resource ::
  "(string \<Rightarrow> string) \<Rightarrow> (string \<Rightarrow> string) \<Rightarrow> (string \<rightharpoonup> resource_spec) \<Rightarrow>
   string \<Rightarrow> string \<Rightarrow> string list \<Rightarrow> string list option \<Rightarrow> string option \<Rightarrow>
   string option \<Rightarrow> string option \<Rightarrow> audit_logger option \<Rightarrow> string option \<Rightarrow> run_result" where
  "run_resource casefold suffix REGISTRY resource by ids field_list hash_salt out out_format
                audit actor =
     (case REGISTRY resource of
        None \<Rightarrow> aborted (UnknownResource resource)
      | Some spec \<Rightarrow>
          if by \<notin> {''cases'', ''patients''} then aborted InvalidGroupingMode
          else
            (case plan_fetch_and_include_for spec by field_list of
               Inl e \<Rightarrow> aborted e
             | Inr (fetch_fields, include_fields) \<Rightarrow>
                 (case fetchers spec (if by = ''cases'' then ''cases'' else ''patients'') of
                    None \<Rightarrow> aborted (UnsupportedGrouping resource by)
                  | Some fetch_func \<Rightarrow>
                      run_planned casefold suffix spec resource by ids field_list hash_salt out
                        out_format audit actor fetch_fields include_fields fetch_func)))"


section \<open>pipeline/pipes/extract_demography.py\<close>

text \<open>\<open>DEMOGRAPHICS_SPEC\<close>, over the schema class and the two query functions.\<close>

definition DEMOGRAPHICS_SPEC :: "schema \<Rightarrow> query_func \<Rightarrow> query_func \<Rightarrow> resource_spec" where
  "DEMOGRAPHICS_SPEC cls for_cases for_patients =
     \<lparr> schema_cls = cls,
       derived_deps =
         [(''patient_age_today'', [''patient_date_of_birth'']),
          (''patient_age_at_admission'', [''patient_date_of_birth'', ''case_admission_time''])],
       requires_cases = {''case_number'', ''case_admission_time'', ''case_discharge_time'',
                         ''patient_age_at_admission''},
       fetchers = [''cases'' \<mapsto> for_cases, ''patients'' \<mapsto> for_patients] \<rparr>"

text \<open>\<open>REGISTRY\<close>.\<close>

definition REGISTRY :: "resource_spec \<Rightarrow> (string \<rightharpoonup> resource_spec)" where
  "REGISTRY demographics = [''demographics'' \<mapsto> demographics]"


section \<open>The plan in the specification's words\<close>

text \<open>
  The deduplicated list, first occurrences kept in their order; and the fetch plan as the
  specification words it: the deduplicated request without the keys of \<open>derived_deps\<close>,
  followed by the dependencies of the requested fields, in the order of the request, each
  once and only if it is not there yet.
\<close>

fun dedup_first :: "'a list \<Rightarrow> 'a list" where
  "dedup_first [] = []"
| "dedup_first (x # xs) = x # dedup_first (removeAll x xs)"

definition fetch_fields_spec :: "resource_spec \<Rightarrow> string list \<Rightarrow> string list" where
  "fetch_fields_spec spec req =
     (let base = filter (\<lambda>f. f \<notin> fst ` set (derived_deps spec)) (dedup_first req)
      in base @ dedup_first (filter (\<lambda>d. d \<notin> set base)
                               (concat (map (deps_of spec) (dedup_first req)))))"

section \<open>SHA-256 on two messages\<close>

text \<open>
  The digest of the FIPS 180-4 example message \<open>abc\<close> and of \<open>secret007\<close>, the salt
  \<open>secret\<close> followed by the value \<open>007\<close>, computed stage by stage: padding, the block,
  the message schedule, the 64 rounds in eight runs of eight, and the hex digest.
\<close>

lemma replicate_numeral: "replicate (numeral k) x = x # replicate (pred_numeral k) x"
  by (simp add: numeral_eq_Suc)

lemma sha_extend_numeral:
  "sha_extend (numeral k) ws =
     sha_extend (pred_numeral k) (ws @ [ssig1 (ws ! (length ws - 2)) + ws ! (length ws - 7)
                         + ssig0 (ws ! (length ws - 15)) + ws ! (length ws - 16)])"
  by (simp add: numeral_eq_Suc)

lemma sha_pad_abc:
  "sha_pad (utf8_encode ''abc'') =
    [97, 98, 99, 128, 0, 0, 0, 0, 0, 0, 0, 0, 0, 0, 0, 0,
     0, 0, 0, 0, 0, 0, 0, 0, 0, 0, 0, 0, 0, 0, 0, 0,
     0, 0, 0, 0, 0, 0, 0, 0, 0, 0, 0, 0, 0, 0, 0, 0,
     0, 0, 0, 0, 0, 0, 0, 0, 0, 0, 0, 0, 0, 0, 0, 24]"
  by (simp add: sha_pad_def utf8_encode_def replicate_numeral)

lemma sha_blocks_abc:
  "sha_blocks
    [97, 98, 99, 128, 0, 0, 0, 0, 0, 0, 0, 0, 0, 0, 0, 0,
     0, 0, 0, 0, 0, 0, 0, 0, 0, 0, 0, 0, 0, 0, 0, 0,
     0, 0, 0, 0, 0, 0, 0, 0, 0, 0, 0, 0, 0, 0, 0, 0,
     0, 0, 0, 0, 0, 0, 0, 0, 0, 0, 0, 0, 0, 0, 0, 24] =
   [[0x61626380, 0x00000000, 0x00000000, 0x00000000, 0x00000000, 0x00000000, 0x00000000, 0x00000000,
    0x00000000, 0x00000000, 0x00000000, 0x00000000, 0x00000000, 0x00000000, 0x00000000, 0x00000018]]"
  by (simp add: sha_blocks_def be32_def upt_rec [of _ "numeral _"] upt_rec [of _ "Suc _"])

lemma sha_extend_abc:
  "sha_extend 48
    [0x61626380, 0x00000000, 0x00000000, 0x00000000, 0x00000000, 0x00000000, 0x00000000, 0x00000000,
     0x00000000, 0x00000000, 0x00000000, 0x00000000, 0x00000000, 0x00000000, 0x00000000, 0x00000018] =
    [0x61626380, 0x00000000, 0x00000000, 0x00000000, 0x00000000, 0x00000000, 0x00000000, 0x00000000,
     0x00000000, 0x00000000, 0x00000000, 0x00000000, 0x00000000, 0x00000000, 0x00000000, 0x00000018,
     0x61626380, 0x000F0000, 0x7DA86405, 0x600003C6, 0x3E9D7B78, 0x0183FC00, 0x12DCBFDB, 0xE2E2C38E,
     0xC8215C1A, 0xB73679A2, 0xE5BC3909, 0x32663C5B, 0x9D209D67, 0xEC8726CB, 0x702138A4, 0xD3B7973B,
     0x93F5997F, 0x3B68BA73, 0xAFF4FFC1, 0xF10A5C62, 0x0A8B3996, 0x72AF830A, 0x9409E33E, 0x24641522,
     0x9F47BF94, 0xF0A64F5A, 0x3E246A79, 0x27333BA3, 0x0C4763F2, 0x840ABF27, 0x7A290D5D, 0x065C43DA,
     0xFB3E89CB, 0xCC7617DB, 0xB9E66C34, 0xA9993667, 0x84BADEDD, 0xC21462BC, 0x1487472C, 0xB20F7A99,
     0xEF57B9CD, 0xEBE6B238, 0x9FE3095E, 0x78BC8D4B, 0xA43FCF15, 0x668B2FF8, 0xEEABA2CC, 0x12B1EDEB]"
  by (simp add: sha_extend_numeral ssig0_def ssig1_def rotr_def)

lemma sha_rounds_abc_1:
  "fold sha_round
      [(0x428A2F98, 0x61626380), (0x71374491, 0x00000000), (0xB5C0FBCF, 0x00000000), (0xE9B5DBA5, 0x00000000),
       (0x3956C25B, 0x00000000), (0x59F111F1, 0x00000000), (0x923F82A4, 0x00000000), (0xAB1C5ED5, 0x00000000)]
      (0x6A09E667, 0xBB67AE85, 0x3C6EF372, 0xA54FF53A, 0x510E527F, 0x9B05688C, 0x1F83D9AB, 0x5BE0CD19)
   = (0x85A07B5F, 0xE5030380, 0x2B4209F5, 0x04409A6A, 0x0C657A79, 0x9B27A401, 0x714260AD, 0x43ADA245)"
  by (simp add: Let_def bsig0_def bsig1_def Ch_def Maj_def rotr_def)

lemma sha_rounds_abc_2:
  "fold sha_round
      [(0xD807AA98, 0x00000000), (0x12835B01, 0x00000000), (0x243185BE, 0x00000000), (0x550C7DC3, 0x00000000),
       (0x72BE5D74, 0x00000000), (0x80DEB1FE, 0x00000000), (0x9BDC06A7, 0x00000000), (0xC19BF174, 0x00000018)]
      (0x85A07B5F, 0xE5030380, 0x2B4209F5, 0x04409A6A, 0x0C657A79, 0x9B27A401, 0x714260AD, 0x43ADA245)
   = (0xB0FA238E, 0xC0645FDE, 0xD932EB16, 0x87912990, 0x07590DCD, 0x0B92F20C, 0x745A48DE, 0x1E578218)"
  by (simp add: Let_def bsig0_def bsig1_def Ch_def Maj_def rotr_def)

lemma sha_rounds_abc_3:
  "fold sha_round
      [(0xE49B69C1, 0x61626380), (0xEFBE4786, 0x000F0000), (0x0FC19DC6, 0x7DA86405), (0x240CA1CC, 0x600003C6),
       (0x2DE92C6F, 0x3E9D7B78), (0x4A7484AA, 0x0183FC00), (0x5CB0A9DC, 0x12DCBFDB), (0x76F988DA, 0xE2E2C38E)]
      (0xB0FA238E, 0xC0645FDE, 0xD932EB16, 0x87912990, 0x07590DCD, 0x0B92F20C, 0x745A48DE, 0x1E578218)
   = (0xC5D53D8D, 0xA7A3623F, 0xC2606D6D, 0x9DC68B63, 0xAA47C347, 0x49F5114A, 0xE1257970, 0x8ADA8930)"
  by (simp add: Let_def bsig0_def bsig1_def Ch_def Maj_def rotr_def)

lemma sha_rounds_abc_4:
  "fold sha_round
      [(0x983E5152, 0xC8215C1A), (0xA831C66D, 0xB73679A2), (0xB00327C8, 0xE5BC3909), (0xBF597FC7, 0x32663C5B),
       (0xC6E00BF3, 0x9D209D67), (0xD5A79147, 0xEC8726CB), (0x06CA6351, 0x702138A4), (0x14292967, 0xD3B7973B)]
      (0xC5D53D8D, 0xA7A3623F, 0xC2606D6D, 0x9DC68B63, 0xAA47C347, 0x49F5114A, 0xE1257970, 0x8ADA8930)
   = (0x73B33BF5, 0xEA992A22, 0xA0060B30, 0x363482C9, 0xBA591112, 0x0109AB3A, 0xADE79437, 0x6112A3B7)"
  by (simp add: Let_def bsig0_def bsig1_def Ch_def Maj_def rotr_def)

lemma sha_rounds_abc_5:
  "fold sha_round
      [(0x27B70A85, 0x93F5997F), (0x2E1B2138, 0x3B68BA73), (0x4D2C6DFC, 0xAFF4FFC1), (0x53380D13, 0xF10A5C62),
       (0x650A7354, 0x0A8B3996), (0x766A0ABB, 0x72AF830A), (0x81C2C92E, 0x9409E33E), (0x92722C85, 0x24641522)]
      (0x73B33BF5, 0xEA992A22, 0xA0060B30, 0x363482C9, 0xBA591112, 0x0109AB3A, 0xADE79437, 0x6112A3B7)
   = (0x79EA687A, 0x6DC57A8A, 0x34DF1604, 0x41A65CB1, 0x1EFBC0A0, 0xF0781BC8, 0xA507A53D, 0x0772A26B)"
  by (simp add: Let_def bsig0_def bsig1_def Ch_def Maj_def rotr_def)

lemma sha_rounds_abc_6:
  "fold sha_round
      [(0xA2BFE8A1, 0x9F47BF94), (0xA81A664B, 0xF0A64F5A), (0xC24B8B70, 0x3E246A79), (0xC76C51A3, 0x27333BA3),
       (0xD192E819, 0x0C4763F2), (0xD6990624, 0x840ABF27), (0xF40E3585, 0x7A290D5D), (0x106AA070, 0x065C43DA)]
      (0x79EA687A, 0x6DC57A8A, 0x34DF1604, 0x41A65CB1, 0x1EFBC0A0, 0xF0781BC8, 0xA507A53D, 0x0772A26B)
   = (0x4172328D, 0xA14C14B0, 0x72AB4B91, 0x26628815, 0xFECF0BC6, 0xD57B94A9, 0xB7755DA1, 0xA80F11F0)"
  by (simp add: Let_def bsig0_def bsig1_def Ch_def Maj_def rotr_def)

lemma sha_rounds_abc_7:
  "fold sha_round
      [(0x19A4C116, 0xFB3E89CB), (0x1E376C08, 0xCC7617DB), (0x2748774C, 0xB9E66C34), (0x34B0BCB5, 0xA9993667),
       (0x391C0CB3, 0x84BADEDD), (0x4ED8AA4A, 0xC21462BC), (0x5B9CCA4F, 0x1487472C), (0x682E6FF3, 0xB20F7A99)]
      (0x4172328D, 0xA14C14B0, 0x72AB4B91, 0x26628815, 0xFECF0BC6, 0xD57B94A9, 0xB7755DA1, 0xA80F11F0)
   = (0x38CC9913, 0x3EC45CDB, 0xF5702FDB, 0x101FD28F, 0x54CB266B, 0xE50E1B4F, 0x9F4787C3, 0x529E7D00)"
  by (simp add: Let_def bsig0_def bsig1_def Ch_def Maj_def rotr_def)

lemma sha_rounds_abc_8:
  "fold sha_round
      [(0x748F82EE, 0xEF57B9CD), (0x78A5636F, 0xEBE6B238), (0x84C87814, 0x9FE3095E), (0x8CC70208, 0x78BC8D4B),
       (0x90BEFFFA, 0xA43FCF15), (0xA4506CEB, 0x668B2FF8), (0xBEF9A3F7, 0xEEABA2CC), (0xC67178F2, 0x12B1EDEB)]
      (0x38CC9913, 0x3EC45CDB, 0xF5702FDB, 0x101FD28F, 0x54CB266B, 0xE50E1B4F, 0x9F4787C3, 0x529E7D00)
   = (0x506E3058, 0xD39A2165, 0x04D24D6C, 0xB85E2CE9, 0x5EF50F24, 0xFB121210, 0x948D25B6, 0x961F4894)"
  by (simp add: Let_def bsig0_def bsig1_def Ch_def Maj_def rotr_def)

lemma sha_rounds_abc:
  "fold sha_round (zip K256
    [0x61626380, 0x00000000, 0x00000000, 0x00000000, 0x00000000, 0x00000000, 0x00000000, 0x00000000,
     0x00000000, 0x00000000, 0x00000000, 0x00000000, 0x00000000, 0x00000000, 0x00000000, 0x00000018,
     0x61626380, 0x000F0000, 0x7DA86405, 0x600003C6, 0x3E9D7B78, 0x0183FC00, 0x12DCBFDB, 0xE2E2C38E,
     0xC8215C1A, 0xB73679A2, 0xE5BC3909, 0x32663C5B, 0x9D209D67, 0xEC8726CB, 0x702138A4, 0xD3B7973B,
     0x93F5997F, 0x3B68BA73, 0xAFF4FFC1, 0xF10A5C62, 0x0A8B3996, 0x72AF830A, 0x9409E33E, 0x24641522,
     0x9F47BF94, 0xF0A64F5A, 0x3E246A79, 0x27333BA3, 0x0C4763F2, 0x840ABF27, 0x7A290D5D, 0x065C43DA,
     0xFB3E89CB, 0xCC7617DB, 0xB9E66C34, 0xA9993667, 0x84BADEDD, 0xC21462BC, 0x1487472C, 0xB20F7A99,
     0xEF57B9CD, 0xEBE6B238, 0x9FE3095E, 0x78BC8D4B, 0xA43FCF15, 0x668B2FF8, 0xEEABA2CC, 0x12B1EDEB]) H256
   = (0x506E3058, 0xD39A2165, 0x04D24D6C, 0xB85E2CE9, 0x5EF50F24, 0xFB121210, 0x948D25B6, 0x961F4894)"
proof -
  have z: "zip K256
    [0x61626380, 0x00000000, 0x00000000, 0x00000000, 0x00000000, 0x00000000, 0x00000000, 0x00000000,
     0x00000000, 0x00000000, 0x00000000, 0x00000000, 0x00000000, 0x00000000, 0x00000000, 0x00000018,
     0x61626380, 0x000F0000, 0x7DA86405, 0x600003C6, 0x3E9D7B78, 0x0183FC00, 0x12DCBFDB, 0xE2E2C38E,
     0xC8215C1A, 0xB73679A2, 0xE5BC3909, 0x32663C5B, 0x9D209D67, 0xEC8726CB, 0x702138A4, 0xD3B7973B,
     0x93F5997F, 0x3B68BA73, 0xAFF4FFC1, 0xF10A5C62, 0x0A8B3996, 0x72AF830A, 0x9409E33E, 0x24641522,
     0x9F47BF94, 0xF0A64F5A, 0x3E246A79, 0x27333BA3, 0x0C4763F2, 0x840ABF27, 0x7A290D5D, 0x065C43DA,
     0xFB3E89CB, 0xCC7617DB, 0xB9E66C34, 0xA9993667, 0x84BADEDD, 0xC21462BC, 0x1487472C, 0xB20F7A99,
     0xEF57B9CD, 0xEBE6B238, 0x9FE3095E, 0x78BC8D4B, 0xA43FCF15, 0x668B2FF8, 0xEEABA2CC, 0x12B1EDEB]
    = [(0x428A2F98, 0x61626380), (0x71374491, 0x00000000), (0xB5C0FBCF, 0x00000000), (0xE9B5DBA5, 0x00000000),
       (0x3956C25B, 0x00000000), (0x59F111F1, 0x00000000), (0x923F82A4, 0x00000000), (0xAB1C5ED5, 0x00000000)]
      @ [(0xD807AA98, 0x00000000), (0x12835B01, 0x00000000), (0x243185BE, 0x00000000), (0x550C7DC3, 0x00000000),
       (0x72BE5D74, 0x00000000), (0x80DEB1FE, 0x00000000), (0x9BDC06A7, 0x00000000), (0xC19BF174, 0x00000018)]
      @ [(0xE49B69C1, 0x61626380), (0xEFBE4786, 0x000F0000), (0x0FC19DC6, 0x7DA86405), (0x240CA1CC, 0x600003C6),
       (0x2DE92C6F, 0x3E9D7B78), (0x4A7484AA, 0x0183FC00), (0x5CB0A9DC, 0x12DCBFDB), (0x76F988DA, 0xE2E2C38E)]
      @ [(0x983E5152, 0xC8215C1A), (0xA831C66D, 0xB73679A2), (0xB00327C8, 0xE5BC3909), (0xBF597FC7, 0x32663C5B),
       (0xC6E00BF3, 0x9D209D67), (0xD5A79147, 0xEC8726CB), (0x06CA6351, 0x702138A4), (0x14292967, 0xD3B7973B)]
      @ [(0x27B70A85, 0x93F5997F), (0x2E1B2138, 0x3B68BA73), (0x4D2C6DFC, 0xAFF4FFC1), (0x53380D13, 0xF10A5C62),
       (0x650A7354, 0x0A8B3996), (0x766A0ABB, 0x72AF830A), (0x81C2C92E, 0x9409E33E), (0x92722C85, 0x24641522)]
      @ [(0xA2BFE8A1, 0x9F47BF94), (0xA81A664B, 0xF0A64F5A), (0xC24B8B70, 0x3E246A79), (0xC76C51A3, 0x27333BA3),
       (0xD192E819, 0x0C4763F2), (0xD6990624, 0x840ABF27), (0xF40E3585, 0x7A290D5D), (0x106AA070, 0x065C43DA)]
      @ [(0x19A4C116, 0xFB3E89CB), (0x1E376C08, 0xCC7617DB), (0x2748774C, 0xB9E66C34), (0x34B0BCB5, 0xA9993667),
       (0x391C0CB3, 0x84BADEDD), (0x4ED8AA4A, 0xC21462BC), (0x5B9CCA4F, 0x1487472C), (0x682E6FF3, 0xB20F7A99)]
      @ [(0x748F82EE, 0xEF57B9CD), (0x78A5636F, 0xEBE6B238), (0x84C87814, 0x9FE3095E), (0x8CC70208, 0x78BC8D4B),
       (0x90BEFFFA, 0xA43FCF15), (0xA4506CEB, 0x668B2FF8), (0xBEF9A3F7, 0xEEABA2CC), (0xC67178F2, 0x12B1EDEB)]"
    by (simp add: K256_def)
  show ?thesis
    unfolding z H256_def
    by (simp only: fold_append comp_apply sha_rounds_abc_1 sha_rounds_abc_2 sha_rounds_abc_3 sha_rounds_abc_4 sha_rounds_abc_5 sha_rounds_abc_6 sha_rounds_abc_7 sha_rounds_abc_8)
qed

lemma sha256_hexdigest_abc:
  "sha256_hexdigest (utf8_encode ''abc'')
     = ''ba7816bf8f01cfea414140de5dae2223b00361a396177a9cb410ff61f20015ad''"
proof -
  have "fold sha_compress (sha_blocks (sha_pad (utf8_encode ''abc''))) H256
          = (0xBA7816BF, 0x8F01CFEA, 0x414140DE, 0x5DAE2223, 0xB00361A3, 0x96177A9C, 0xB410FF61, 0xF20015AD)"
    by (simp add: sha_pad_abc sha_blocks_abc sha_compress_def sha_extend_abc sha_rounds_abc)
       (simp add: H256_def)
  then show ?thesis
    by (simp add: sha256_hexdigest_def hex32_def digit_char_def)
qed
















section \<open>Hashing: the digest and the serializer hook\<close>




lemma hash_value_salted:
  "salt \<noteq> [] \<Longrightarrow> hash_value v (Some salt) default_length
       = take 12 (sha256_hexdigest (utf8_encode (salt @ v)))"
  by (simp add: hash_value_def str_truthy_def py_slice_to_def default_length_def)



lemma map_of_hash_field:
  "map_of (hash_field salt f data) k =
     (if k = f then (case map_of data f of
                       Some (VStr s) \<Rightarrow> Some (VStr (hash_value s salt default_length))
                     | other \<Rightarrow> other)
      else map_of data k)"
  by (simp add: hash_field_def update_conv' split: option.splits pyval.splits)

lemma keys_hash_field: "map fst (hash_field salt f data) = map fst data"
  by (auto simp add: hash_field_def AList.update_keys map_of_eq_None_iff
        split: option.splits pyval.splits dest: map_of_SomeD intro: rev_image_eqI)

lemma map_of_fold_hash_field:
  "distinct fs \<Longrightarrow>
   map_of (fold (hash_field salt) fs data) k =
     (if k \<in> set fs then (case map_of data k of
                       Some (VStr s) \<Rightarrow> Some (VStr (hash_value s salt default_length))
                     | other \<Rightarrow> other)
      else map_of data k)"
proof (induction fs arbitrary: data)
  case Nil
  then show ?case by simp
next
  case (Cons f fs)
  then show ?case
    by (auto simp add: map_of_hash_field split: option.splits pyval.splits)
qed

lemma keys_fold_hash_field: "map fst (fold (hash_field salt) fs data) = map fst data"
  by (induction fs arbitrary: data) (simp_all add: keys_hash_field)



text \<open>
  Claim C10.  When a non-empty salt is supplied at dump time, the serializer hook replaces
  a hashable field exactly when the value the handler produced for it is a string: a
  string becomes its digest; a hashable field whose value is present but not a string (a
  number, say) keeps that value, raw, although hashing is active; a field that is absent
  stays absent; a field that is not hashable is never touched; and the keys of the dump
  and their order stay as they were.  \<open>dump_hashed\<close> is this hook on the handler's output.
\<close>

theorem apply_hashing_strings_only:
  assumes "salt \<noteq> []" and "distinct (hashable_fields cls)"
    and "field \<in> set (hashable_fields cls)"
  shows "(\<forall>s. map_of data field = Some (VStr s) \<longrightarrow>
            map_of (apply_hashing cls (Some salt) data) field
              = Some (VStr (hash_value s (Some salt) default_length)))
       \<and> (\<forall>v. map_of data field = Some v \<and> (\<forall>s. v \<noteq> VStr s) \<longrightarrow>
            map_of (apply_hashing cls (Some salt) data) field = Some v)
       \<and> (map_of data field = None \<longrightarrow>
            map_of (apply_hashing cls (Some salt) data) field = None)
       \<and> (\<forall>k. k \<notin> set (hashable_fields cls) \<longrightarrow>
            map_of (apply_hashing cls (Some salt) data) k = map_of data k)
       \<and> map fst (apply_hashing cls (Some salt) data) = map fst data
       \<and> dump_hashed cls m salt incl excl
            = apply_hashing cls (Some salt) (handler_dump m (effective_exclude cls incl excl))"
proof -
  have ne: "hashable_fields cls \<noteq> []" using assms(3) by auto
  have eq: "apply_hashing cls (Some salt) data
              = fold (hash_field (Some salt)) (hashable_fields cls) data"
    using assms(1) ne by (simp add: apply_hashing_def str_truthy_def)
  show ?thesis
    unfolding eq using assms(2,3)
    by (auto simp add: map_of_fold_hash_field keys_fold_hash_field dump_hashed_def model_dump_def
          apply_hashing_def str_truthy_def assms(1) ne
          split: pyval.splits)
qed

theorem apply_hashing_strings_only_witness:
  "map_of (dump_hashed (DemographicsOut (\<lambda>d. Inl []))
             \<lparr> field_values = [(''case_number'', VInt 7), (''patient_sex'', VStr ''M'')],
               fields_set = {''case_number'', ''patient_sex''} \<rparr> ''secret'' None None)
          ''case_number'' = Some (VInt 7)"
proof -
  let ?cls = "DemographicsOut (\<lambda>d. Inl [])"
  let ?m = "\<lparr> field_values = [(''case_number'', VInt 7), (''patient_sex'', VStr ''M'')],
               fields_set = {''case_number'', ''patient_sex''} \<rparr>"
  let ?data = "handler_dump ?m (effective_exclude ?cls None None)"
  have a: "''secret'' \<noteq> []" by simp
  have b: "distinct (hashable_fields ?cls)" by (simp add: DemographicsOut_def)
  have c: "''case_number'' \<in> set (hashable_fields ?cls)" by (simp add: DemographicsOut_def)
  have d: "map_of ?data ''case_number'' = Some (VInt 7)"
    by (simp add: handler_dump_def effective_exclude_def opt_set_def DemographicsOut_def)
  from apply_hashing_strings_only [OF a b c, of ?data ?m None None] d
  show ?thesis by simp
qed

section \<open>The field planner\<close>

lemma set_dedup_first: "set (dedup_first xs) = set xs"
  by (induction xs rule: dedup_first.induct) auto

lemma distinct_dedup_first: "distinct (dedup_first xs)"
  by (induction xs rule: dedup_first.induct) (auto simp add: set_dedup_first)

lemma append_new_old: "x \<in> set ys \<Longrightarrow> append_new x ys = ys"
  by (simp add: append_new_def)

lemma append_new_fresh: "x \<notin> set ys \<Longrightarrow> append_new x ys = ys @ [x]"
  by (simp add: append_new_def)

lemma fold_append_new:
  "fold append_new ds base = base @ dedup_first (filter (\<lambda>d. d \<notin> set base) ds)"
proof (induction ds arbitrary: base)
  case Nil
  then show ?case by simp
next
  case (Cons d ds)
  show ?case
  proof (cases "d \<in> set base")
    case True
    then show ?thesis by (simp add: append_new_old Cons.IH)
  next
    case False
    have "removeAll d (filter (\<lambda>x. x \<notin> set base) ds)
            = filter (\<lambda>x. x \<notin> set (base @ [d])) ds"
      by (induction ds) auto
    with False show ?thesis by (simp add: append_new_fresh Cons.IH)
  qed
qed

lemma fromkeys_dedup_first: "fromkeys xs = dedup_first xs"
  by (simp add: fromkeys_def fold_append_new)

lemma dedup_first_snoc:
  "dedup_first (xs @ [x]) = (if x \<in> set xs then dedup_first xs else dedup_first xs @ [x])"
proof -
  have "dedup_first (xs @ [x]) = fold append_new (xs @ [x]) []"
    by (simp only: fold_append_new) simp
  also have "\<dots> = append_new x (dedup_first xs)"
    by (simp add: fold_append_new)
  finally show ?thesis by (simp add: append_new_def set_dedup_first)
qed

lemma dedup_first_rev_remdups: "dedup_first xs = rev (remdups (rev xs))"
  by (induction xs rule: rev_induct) (simp_all add: dedup_first_snoc)

lemma fold_fold_append_new:
  "fold (\<lambda>name ff. fold append_new (deps name) ff) names base
     = fold append_new (concat (map deps names)) base"
  by (induction names arbitrary: base) simp_all

lemma plan_some:
  "plan_fetch_and_include_for spec by (Some req) =
     (if by \<noteq> ''cases'' \<and> requires_cases spec \<inter> set req \<noteq> {}
      then Inl GroupingModeFieldMismatch
      else Inr (Some (fetch_fields_spec spec req), Some (dedup_first req)))"
  by (simp add: plan_fetch_and_include_for_def fetch_fields_spec_def Let_def
        fromkeys_dedup_first set_dedup_first fold_fold_append_new fold_append_new)

lemma fetch_fields_spec_base:
  "set (dedup_first req) - fst ` set (derived_deps spec) \<subseteq> set (fetch_fields_spec spec req)"
  by (auto simp add: fetch_fields_spec_def Let_def)

lemma fetch_fields_spec_deps:
  "name \<in> set req \<Longrightarrow> set (deps_of spec name) \<subseteq> set (fetch_fields_spec spec req)"
  by (auto simp add: fetch_fields_spec_def Let_def set_dedup_first)

lemma distinct_fetch_fields_spec: "distinct (fetch_fields_spec spec req)"
  by (auto simp add: fetch_fields_spec_def Let_def distinct_dedup_first set_dedup_first
        intro!: distinct_filter)


text \<open>
  Claim C2.  For every requested field list that is not \<open>None\<close>, the planner either raises
  the grouping-mode mismatch (a requested field is in \<open>requires_cases\<close> and the mode is not
  \<open>"cases"\<close>) or returns the plan the specification words: \<open>include_fields\<close> is the
  request with duplicates dropped, first occurrences in their order; \<open>fetch_fields\<close> is that
  list without the keys of \<open>derived_deps\<close>, followed by the dependencies of the requested
  fields, in the order of the request, each appended only if it is not there yet.  Hence
  \<open>fetch_fields\<close> holds every requested field that is not derived and every dependency of
  every requested field, and both lists are free of duplicates.
\<close>

theorem planner_fetch_and_include:
  "plan_fetch_and_include_for spec by (Some req) =
     (if by \<noteq> ''cases'' \<and> requires_cases spec \<inter> set req \<noteq> {}
      then Inl GroupingModeFieldMismatch
      else Inr (Some (fetch_fields_spec spec req), Some (dedup_first req)))
   \<and> set (dedup_first req) - fst ` set (derived_deps spec) \<subseteq> set (fetch_fields_spec spec req)
   \<and> (\<forall>name \<in> set req. set (deps_of spec name) \<subseteq> set (fetch_fields_spec spec req))
   \<and> distinct (dedup_first req) \<and> set (dedup_first req) = set req
   \<and> dedup_first req = rev (remdups (rev req))
   \<and> distinct (fetch_fields_spec spec req)"
proof (intro conjI ballI)
  show "plan_fetch_and_include_for spec by (Some req) =
     (if by \<noteq> ''cases'' \<and> requires_cases spec \<inter> set req \<noteq> {}
      then Inl GroupingModeFieldMismatch
      else Inr (Some (fetch_fields_spec spec req), Some (dedup_first req)))"
    by (rule plan_some)
  show "set (dedup_first req) - fst ` set (derived_deps spec) \<subseteq> set (fetch_fields_spec spec req)"
    by (rule fetch_fields_spec_base)
  show "set (deps_of spec name) \<subseteq> set (fetch_fields_spec spec req)" if "name \<in> set req" for name
    using that by (rule fetch_fields_spec_deps)
  show "distinct (dedup_first req)" by (rule distinct_dedup_first)
  show "set (dedup_first req) = set req" by (rule set_dedup_first)
  show "dedup_first req = rev (remdups (rev req))" by (rule dedup_first_rev_remdups)
  show "distinct (fetch_fields_spec spec req)" by (rule distinct_fetch_fields_spec)
qed

theorem planner_fetch_and_include_witness:
  "plan_fetch_and_include_for
     (DEMOGRAPHICS_SPEC (DemographicsOut (\<lambda>d. Inl [])) (\<lambda>ps. []) (\<lambda>ps. [])) ''cases''
     (Some [''patient_age_at_admission'', ''patient_sex'', ''patient_age_at_admission''])
   = Inr (Some [''patient_sex'', ''patient_date_of_birth'', ''case_admission_time''],
          Some [''patient_age_at_admission'', ''patient_sex''])"
  using planner_fetch_and_include
     [of "DEMOGRAPHICS_SPEC (DemographicsOut (\<lambda>d. Inl [])) (\<lambda>ps. []) (\<lambda>ps. [])" "''cases''"
         "[''patient_age_at_admission'', ''patient_sex'', ''patient_age_at_admission'']",
       THEN conjunct1]
  by (simp add: fetch_fields_spec_def DEMOGRAPHICS_SPEC_def deps_of_def)


text \<open>
  Claim C4, as the code has it.  With no field list (\<open>None\<close>) the planner returns
  \<open>(None, None)\<close> and defers to the fetcher's default columns.  An empty list is not
  \<open>None\<close>: the plan is then \<open>([], [])\<close>.
\<close>

theorem planner_defers_only_for_None:
  "plan_fetch_and_include_for spec by None = Inr (None, None)
   \<and> plan_fetch_and_include_for spec by (Some []) = Inr (Some [], Some [])"
  by (simp add: plan_fetch_and_include_for_def fromkeys_def)


text \<open>
  The claim C4 as stated (an empty list also gives \<open>(None, None)\<close>) fails for the
  demographics resource grouped by patients.
\<close>

theorem planner_empty_list_counterexample:
  "plan_fetch_and_include_for
     (DEMOGRAPHICS_SPEC (DemographicsOut (\<lambda>d. Inl [])) (\<lambda>ps. []) (\<lambda>ps. [])) ''patients''
     (Some []) \<noteq> Inr (None, None)"
  by (simp add: plan_fetch_and_include_for_def fromkeys_def)

section \<open>The orchestrator's precondition errors\<close>

lemma run_unknown:
  "REG resource = None \<Longrightarrow>
   run_resource cf sx REG resource by ids fl salt out fmt audit actor
     = aborted (UnknownResource resource)"
  by (simp add: run_resource_def)

lemma run_invalid_mode:
  "REG resource = Some spec \<Longrightarrow> by \<notin> {''cases'', ''patients''} \<Longrightarrow>
   run_resource cf sx REG resource by ids fl salt out fmt audit actor
     = aborted InvalidGroupingMode"
  by (simp add: run_resource_def)

lemma run_plan_failed:
  "REG resource = Some spec \<Longrightarrow> by \<in> {''cases'', ''patients''} \<Longrightarrow>
   plan_fetch_and_include_for spec by fl = Inl e \<Longrightarrow>
   run_resource cf sx REG resource by ids fl salt out fmt audit actor = aborted e"
  by (simp add: run_resource_def)

lemma plan_failed_iff:
  "plan_fetch_and_include_for spec by fl = Inl e \<longleftrightarrow>
     e = GroupingModeFieldMismatch \<and> by \<noteq> ''cases''
     \<and> (\<exists>fs. fl = Some fs \<and> requires_cases spec \<inter> set fs \<noteq> {})"
proof (cases fl)
  case None
  then show ?thesis by (simp add: plan_fetch_and_include_for_def)
next
  case (Some fs)
  then show ?thesis by (auto simp add: plan_some)
qed

lemma write_df_error:
  "write_df sx df out fmt = Inl e \<Longrightarrow> \<exists>f. e = UnsupportedOutputFormat f"
  by (auto simp add: write_df_def Let_def split: if_splits)

lemma outcome_run_planned:
  "outcome (run_planned cf sx spec resource by ids fl salt out fmt audit actor ff inc f)
     = (case write_df sx (enforce_order (DataFrame (fst (validate_with_model cf (schema_cls spec)
                 (yielded (fetcher_iter (make_fetcher f)
                     [(if by = ''cases'' then ''case_numbers'' else ''patient_ids'') \<mapsto> PList ids,
                      ''fields'' \<mapsto> (case ff of None \<Rightarrow> PNone | Some fs \<Rightarrow> PList fs)]))
                 salt (map_option set inc) None))) inc) out fmt of
          Inl e \<Rightarrow> Inl e
        | Inr w \<Rightarrow> Inr (enforce_order (DataFrame (fst (validate_with_model cf (schema_cls spec)
                 (yielded (fetcher_iter (make_fetcher f)
                     [(if by = ''cases'' then ''case_numbers'' else ''patient_ids'') \<mapsto> PList ids,
                      ''fields'' \<mapsto> (case ff of None \<Rightarrow> PNone | Some fs \<Rightarrow> PList fs)]))
                 salt (map_option set inc) None))) inc))"
  by (simp add: run_planned_def Let_def split_beta split: sum.splits)

lemma outcome_run_planned_kinds:
  "(\<exists>fm. outcome (run_planned cf sx spec resource by ids fl salt out fmt audit actor ff inc f)
           = Inl (UnsupportedOutputFormat fm))
   \<or> (\<exists>df. outcome (run_planned cf sx spec resource by ids fl salt out fmt audit actor ff inc f)
           = Inr df)"
  unfolding outcome_run_planned
  by (auto split: sum.splits dest: write_df_error)

lemma queries_run_planned:
  "length (queries (run_planned cf sx spec resource by ids fl salt out fmt audit actor ff inc f)) = 1"
  by (simp add: run_planned_def Let_def split_beta fetcher_iter_def split: sum.splits)


text \<open>
  Claim C9, as the code has it.  The three checks run in a fixed order, so each error is
  raised exactly when its own condition holds and no earlier check has failed: the call
  fails with \<open>UnknownResource\<close> exactly when the resource name is not registered; with
  \<open>InvalidGroupingMode\<close> exactly when the resource is registered and the grouping mode is
  neither \<open>"cases"\<close> nor \<open>"patients"\<close>; with \<open>GroupingModeFieldMismatch\<close> exactly when the
  resource is registered, the mode is \<open>"patients"\<close> and some requested field is in the
  resource's \<open>requires_cases\<close>.  In each of the three cases the query function has not
  been called, nothing has been written and no audit record has been emitted.
\<close>

theorem run_resource_precondition_errors:
  assumes r: "r = run_resource cf sx REG resource by ids fl salt out fmt audit actor"
  shows "((\<exists>x. outcome r = Inl (UnknownResource x)) \<longleftrightarrow> REG resource = None)
       \<and> (REG resource = None \<longrightarrow> outcome r = Inl (UnknownResource resource))
       \<and> (outcome r = Inl InvalidGroupingMode
            \<longleftrightarrow> REG resource \<noteq> None \<and> by \<notin> {''cases'', ''patients''})
       \<and> (outcome r = Inl GroupingModeFieldMismatch
            \<longleftrightarrow> (\<exists>spec fs. REG resource = Some spec \<and> by = ''patients'' \<and> fl = Some fs
                          \<and> requires_cases spec \<inter> set fs \<noteq> {}))
       \<and> ((\<exists>x. outcome r = Inl (UnknownResource x)) \<or> outcome r = Inl InvalidGroupingMode
            \<or> outcome r = Inl GroupingModeFieldMismatch
            \<longrightarrow> queries r = [] \<and> files_written r = [] \<and> audit_lines r = [])"
proof (cases "REG resource")
  case None
  then have "r = aborted (UnknownResource resource)"
    using r by (simp add: run_unknown)
  with None show ?thesis by (simp add: aborted_def)
next
  case (Some spec)
  show ?thesis
  proof (cases "by \<in> {''cases'', ''patients''}")
    case False
    then have "r = aborted InvalidGroupingMode"
      using r Some by (simp add: run_invalid_mode)
    with Some False show ?thesis by (auto simp add: aborted_def)
  next
    case valid: True
    show ?thesis
    proof (cases "plan_fetch_and_include_for spec by fl")
      case (Inl e)
      then have e: "e = GroupingModeFieldMismatch" and "by \<noteq> ''cases''"
        and fs: "\<exists>fs. fl = Some fs \<and> requires_cases spec \<inter> set fs \<noteq> {}"
        by (simp_all add: plan_failed_iff)
      with valid have "by = ''patients''" by simp
      moreover have "r = aborted GroupingModeFieldMismatch"
        using r Some valid Inl e run_plan_failed by metis
      ultimately show ?thesis using Some valid fs by (simp add: aborted_def)
    next
      case (Inr p)
      obtain ff inc where p: "p = (ff, inc)" by (cases p)
      have no_mismatch: "\<not> (\<exists>fs. by = ''patients'' \<and> fl = Some fs
                                \<and> requires_cases spec \<inter> set fs \<noteq> {})"
      proof
        assume "\<exists>fs. by = ''patients'' \<and> fl = Some fs \<and> requires_cases spec \<inter> set fs \<noteq> {}"
        then have "plan_fetch_and_include_for spec by fl = Inl GroupingModeFieldMismatch"
          by (subst plan_failed_iff) auto
        with Inr show False by simp
      qed
      have kinds: "(\<exists>x y. outcome r = Inl (UnsupportedGrouping x y))
                 \<or> (\<exists>fm. outcome r = Inl (UnsupportedOutputFormat fm))
                 \<or> (\<exists>df. outcome r = Inr df)"
      proof (cases "fetchers spec (if by = ''cases'' then ''cases'' else ''patients'')")
        case None
        then have "r = aborted (UnsupportedGrouping resource by)"
          using r Some valid Inr p by (auto simp add: run_resource_def)
        then show ?thesis by (simp add: aborted_def)
      next
        case (Some f)
        then have "r = run_planned cf sx spec resource by ids fl salt out fmt audit actor ff inc f"
          using r \<open>REG resource = Some spec\<close> valid Inr p by (auto simp add: run_resource_def)
        then show ?thesis using outcome_run_planned_kinds by metis
      qed
      from kinds have a: "\<not> (\<exists>x. outcome r = Inl (UnknownResource x))"
        and b: "outcome r \<noteq> Inl InvalidGroupingMode"
        and c: "outcome r \<noteq> Inl GroupingModeFieldMismatch"
        by auto
      show ?thesis using a b c Some valid no_mismatch by auto
    qed
  qed
qed

theorem run_resource_precondition_errors_witness:
  "outcome (run_resource (\<lambda>s. s) (\<lambda>s. s)
       (REGISTRY (DEMOGRAPHICS_SPEC (DemographicsOut (\<lambda>d. Inl [])) (\<lambda>ps. []) (\<lambda>ps. [])))
       ''demographics'' ''patients'' [''P1''] (Some [''case_number'']) None None None None None)
     = Inl GroupingModeFieldMismatch
   \<and> queries (run_resource (\<lambda>s. s) (\<lambda>s. s)
       (REGISTRY (DEMOGRAPHICS_SPEC (DemographicsOut (\<lambda>d. Inl [])) (\<lambda>ps. []) (\<lambda>ps. [])))
       ''demographics'' ''patients'' [''P1''] (Some [''case_number'']) None None None None None)
     = []"
  using run_resource_precondition_errors [OF refl, of "\<lambda>s. s" "\<lambda>s. s"
       "REGISTRY (DEMOGRAPHICS_SPEC (DemographicsOut (\<lambda>d. Inl [])) (\<lambda>ps. []) (\<lambda>ps. []))"
       "''demographics''" "''patients''" "[''P1'']" "Some [''case_number'']" None None None None None]
  by (simp add: REGISTRY_def DEMOGRAPHICS_SPEC_def)


text \<open>
  The claim C9 as stated (\<open>InvalidGroupingMode\<close> exactly when the mode is neither of the
  two) fails for an unregistered resource with an unknown mode: the resource is checked
  first.
\<close>

theorem run_resource_error_precedence_counterexample:
  "''bogus'' \<notin> {''cases'', ''patients''}
   \<and> outcome (run_resource (\<lambda>s. s) (\<lambda>s. s)
        (REGISTRY (DEMOGRAPHICS_SPEC (DemographicsOut (\<lambda>d. Inl [])) (\<lambda>ps. []) (\<lambda>ps. [])))
        ''nope'' ''bogus'' [''P1''] None None None None None None)
       \<noteq> Inl InvalidGroupingMode"
  by (simp add: run_resource_def REGISTRY_def aborted_def)

section \<open>Validation of a batch of rows\<close>

lemma validate_step_apply:
  "validate_step cf cls salt incl excl (i, row) (cl, er) =
     (case model_validate cf cls row of
        Inl exc \<Rightarrow> (cl, er @ [''row '' @ show_nat i @ '': '' @ exc])
      | Inr obj \<Rightarrow> (cl @ [if str_truthy salt then dump_hashed cls obj (the salt) incl excl
                            else dump_clean cls obj incl excl], er))"
  by (simp add: validate_step_def)

lemma fold_validate_step:
  "fold (validate_step cf cls salt incl excl) (enumerate n rows) (cl, er) =
     (cl @ concat (map (\<lambda>row. case model_validate cf cls row of
                                Inl exc \<Rightarrow> []
                              | Inr obj \<Rightarrow> [if str_truthy salt
                                            then dump_hashed cls obj (the salt) incl excl
                                            else dump_clean cls obj incl excl]) rows),
      er @ concat (map (\<lambda>(i, row). case model_validate cf cls row of
                                Inl exc \<Rightarrow> [''row '' @ show_nat i @ '': '' @ exc]
                              | Inr obj \<Rightarrow> []) (enumerate n rows)))"
proof (induction rows arbitrary: n cl er)
  case Nil
  then show ?case by simp
next
  case (Cons row rows)
  show ?case
    by (cases "model_validate cf cls row") (simp_all add: Cons.IH validate_step_apply)
qed

lemma length_concat_singletons:
  "length (concat (map (\<lambda>x. case f x of Inl a \<Rightarrow> [] | Inr b \<Rightarrow> [g b]) xs))
   + length (concat (map (\<lambda>(i, x). case f x of Inl a \<Rightarrow> [h i a] | Inr b \<Rightarrow> []) (enumerate n xs)))
   = length xs"
  by (induction xs arbitrary: n) (auto split: sum.splits)


text \<open>
  Claim C8.  \<open>_validate_with_model\<close> has no failing outcome: whatever a row makes
  \<open>model_validate\<close> raise is caught.  Row by row, in order, a row that validates yields
  exactly one record (its dump) and no error, and a row that fails yields no record and
  exactly one error text, \<open>row i: message\<close> with \<open>i\<close> the index of the row; so the records
  and the errors together are as many as the rows.  What is logged is one warning for
  each of the first 10 errors and, when there are more, one more line with the count of
  the rest.
\<close>

theorem validate_with_model_collects_errors:
  "fst (validate_rows cf cls rows salt incl excl)
     = concat (map (\<lambda>row. case model_validate cf cls row of
                            Inl exc \<Rightarrow> []
                          | Inr obj \<Rightarrow> [if str_truthy salt
                                        then dump_hashed cls obj (the salt) incl excl
                                        else dump_clean cls obj incl excl]) rows)
   \<and> snd (validate_rows cf cls rows salt incl excl)
     = concat (map (\<lambda>(i, row). case model_validate cf cls row of
                            Inl exc \<Rightarrow> [''row '' @ show_nat i @ '': '' @ exc]
                          | Inr obj \<Rightarrow> []) (enumerate 0 rows))
   \<and> length (fst (validate_rows cf cls rows salt incl excl))
       + length (snd (validate_rows cf cls rows salt incl excl)) = length rows
   \<and> validate_with_model cf cls rows salt incl excl
     = (fst (validate_rows cf cls rows salt incl excl),
        map (\<lambda>e. ''validation issue: '' @ e) (take 10 (snd (validate_rows cf cls rows salt incl excl)))
        @ (if length (snd (validate_rows cf cls rows salt incl excl)) > 10
           then [''... plus '' @ show_nat (length (snd (validate_rows cf cls rows salt incl excl)) - 10)
                 @ '' more validation issues'']
           else []))"
proof -
  have rows_eq: "validate_rows cf cls rows salt incl excl =
     (concat (map (\<lambda>row. case model_validate cf cls row of
                            Inl exc \<Rightarrow> []
                          | Inr obj \<Rightarrow> [if str_truthy salt
                                        then dump_hashed cls obj (the salt) incl excl
                                        else dump_clean cls obj incl excl]) rows),
      concat (map (\<lambda>(i, row). case model_validate cf cls row of
                            Inl exc \<Rightarrow> [''row '' @ show_nat i @ '': '' @ exc]
                          | Inr obj \<Rightarrow> []) (enumerate 0 rows)))"
    using fold_validate_step [of cf cls salt incl excl 0 rows "[]" "[]"]
    by (simp add: validate_rows_def)
  have w: "validate_with_model cf cls rows salt incl excl
     = (fst (validate_rows cf cls rows salt incl excl),
        validation_warnings (snd (validate_rows cf cls rows salt incl excl)))"
    by (simp add: validate_with_model_def split_beta)
  have vw: "validation_warnings es = map (\<lambda>e. ''validation issue: '' @ e) (take 10 es)
        @ (if length es > 10
           then [''... plus '' @ show_nat (length es - 10) @ '' more validation issues'']
           else [])" for es
    by (simp add: validation_warnings_def)
  show ?thesis
    unfolding w vw unfolding rows_eq
    by (simp add: length_concat_singletons)
qed


theorem validate_with_model_collects_errors_witness:
  "validate_with_model (\<lambda>s. s)
     \<lparr> hashable_fields = [''case_number''], excluded_by_default = {}, normalization_maps = [],
       structural = (\<lambda>d. case d of
            DictData r \<Rightarrow> (case map_of r ''case_number'' of
                 Some (VStr s) \<Rightarrow> Inr \<lparr> field_values = r, fields_set = set (map fst r) \<rparr>
               | _ \<Rightarrow> Inl ''case_number: Input should be a valid string'')
          | OtherData r \<Rightarrow> Inl ''not a dict'') \<rparr>
     [DictData [(''case_number'', VStr ''007'')], DictData [(''case_number'', VInt 7)]]
     None None None
   = ([[(''case_number'', VStr ''007'')]],
      [''validation issue: row 1: case_number: Input should be a valid string''])"
  using validate_with_model_collects_errors [of "\<lambda>s. s"
     "\<lparr> hashable_fields = [''case_number''], excluded_by_default = {}, normalization_maps = [],
       structural = (\<lambda>d. case d of
            DictData r \<Rightarrow> (case map_of r ''case_number'' of
                 Some (VStr s) \<Rightarrow> Inr \<lparr> field_values = r, fields_set = set (map fst r) \<rparr>
               | _ \<Rightarrow> Inl ''case_number: Input should be a valid string'')
          | OtherData r \<Rightarrow> Inl ''not a dict'') \<rparr>"
     "[DictData [(''case_number'', VStr ''007'')], DictData [(''case_number'', VInt 7)]]"
     None None None]
  by (simp add: model_validate_def apply_normalization_maps_def dump_clean_def model_dump_def
        apply_hashing_def str_truthy_def handler_dump_def effective_exclude_def opt_set_def
        show_nat.simps digit_char_def)

section \<open>Normalization before validation\<close>




















section \<open>Batched iteration\<close>

lemma ceil_covers:
  assumes "0 < k"
  shows "(n::nat) \<le> ((n + k - 1) div k) * k"
proof -
  have "(n + k - 1) div k * k + (n + k - 1) mod k = n + k - 1"
    by simp
  moreover have "(n + k - 1) mod k < k"
    using assms by simp
  ultimately show ?thesis by linarith
qed

lemma start_in_range:
  assumes "0 < k" and "j < (n + k - 1) div k"
  shows "j * k < (n::nat)"
proof -
  have "Suc j * k \<le> (n + k - 1) div k * k"
    using assms(2) by (intro mult_le_mono1) simp
  also have "\<dots> \<le> n + k - 1"
    by simp
  finally have "j * k + k \<le> n + k - 1" by simp
  with assms(1) show ?thesis by linarith
qed

lemma concat_chunks_take:
  "concat (map (\<lambda>i. take k (drop i xs)) (map (\<lambda>j. j * k) [0..<m])) = take (m * k) xs"
proof (induction m)
  case 0
  then show ?case by simp
next
  case (Suc m)
  have "take (m * k) xs @ take k (drop (m * k) xs) = take (m * k + k) xs"
    by (simp add: take_add)
  then show ?case using Suc by (simp add: add.commute)
qed

lemma py_range_pos:
  "0 < step \<Longrightarrow>
   py_range n step = Inr (map (\<lambda>j. j * nat step) [0..<(n + nat step - 1) div nat step])"
  by (simp add: py_range_def)

lemma concat_code_chunks:
  assumes "0 < max_items"
  shows "concat (map (chunk_at xs max_items)
            (map (\<lambda>j. j * nat max_items) [0..<(length xs + nat max_items - 1) div nat max_items]))
         = xs"
proof -
  have k: "0 < nat max_items" using assms by simp
  have "concat (map (chunk_at xs max_items)
            (map (\<lambda>j. j * nat max_items) [0..<(length xs + nat max_items - 1) div nat max_items]))
        = take ((length xs + nat max_items - 1) div nat max_items * nat max_items) xs"
    unfolding chunk_at_def by (rule concat_chunks_take)
  also have "\<dots> = xs"
    using ceil_covers [OF k, of "length xs"] by simp
  finally show ?thesis .
qed

lemma code_chunk_bounds:
  assumes "0 < max_items"
    and "c \<in> set (map (chunk_at xs max_items)
            (map (\<lambda>j. j * nat max_items) [0..<(length xs + nat max_items - 1) div nat max_items]))"
  shows "c \<noteq> [] \<and> int (length c) \<le> max_items"
proof -
  have k: "0 < nat max_items" using assms(1) by simp
  from assms(2) obtain j where j: "j < (length xs + nat max_items - 1) div nat max_items"
    and c: "c = take (nat max_items) (drop (j * nat max_items) xs)"
    by (auto simp add: chunk_at_def)
  have "j * nat max_items < length xs"
    using k j by (rule start_in_range)
  then have "drop (j * nat max_items) xs \<noteq> []" by simp
  with k c have "c \<noteq> []" by simp
  moreover have "int (length c) \<le> max_items" using c assms(1) by simp
  ultimately show ?thesis by simp
qed


lemma batched_iter_degrades:
  assumes "seq = (if overrides list_param \<noteq> None then param_get overrides list_param
                  else param_get (defaults f) list_param)"
    and "\<not> is_batchable_sequence seq \<or> seq_items seq = []
         \<or> int (length (seq_items seq)) \<le> max_items"
  shows "batched_iter f list_param max_items overrides = fetcher_iter f overrides"
  using assms(2) unfolding batched_iter_def assms(1) [symmetric]
  by (auto simp add: Let_def)

lemma batched_iter_chunked:
  assumes "seq = (if overrides list_param \<noteq> None then param_get overrides list_param
                  else param_get (defaults f) list_param)"
    and "is_batchable_sequence seq" and "max_items < int (length (seq_items seq))"
    and "0 < max_items"
  shows "batched_iter f list_param max_items overrides =
     (let calls = map (\<lambda>c. (defaults f ++ overrides)(list_param \<mapsto> PList c))
                      (map (chunk_at (seq_items seq) max_items)
                         (map (\<lambda>j. j * nat max_items)
                           [0..<(length (seq_items seq) + nat max_items - 1) div nat max_items]))
      in \<lparr> yielded = concat (map (\<lambda>ps. map (transformed f) (func f ps)) calls),
           sessions_opened = 1, query_calls = calls, raised = None \<rparr>)"
proof -
  have ne: "seq_items seq \<noteq> []" using assms(3,4) by auto
  show ?thesis
    unfolding batched_iter_def assms(1) [symmetric]
    using assms(2,3,4) ne
    by (simp add: Let_def py_range_pos comp_def)
qed

lemma params_hold_seq:
  assumes "seq = (if overrides list_param \<noteq> None then param_get overrides list_param
                  else param_get (defaults f) list_param)"
    and "is_batchable_sequence seq"
  shows "(defaults f ++ overrides)(list_param \<mapsto> seq) = defaults f ++ overrides"
proof -
  have "(defaults f ++ overrides) list_param = Some seq"
  proof (cases "overrides list_param")
    case (Some v)
    then show ?thesis using assms(1) by (simp add: param_get_def)
  next
    case None
    then have s: "seq = param_get (defaults f) list_param" using assms(1) by simp
    with assms(2) have "defaults f list_param = Some seq"
      by (cases "defaults f list_param") (auto simp add: param_get_def)
    with None show ?thesis by (simp add: map_add_def)
  qed
  then show ?thesis by (rule fun_upd_idem)
qed


lemma concat_map_chunks:
  "concat (map (\<lambda>c. map t (concat (map g c))) chunks) = map t (concat (map g (concat chunks)))"
  by (induction chunks) simp_all


text \<open>
  Claim C7, as the code has it.  Let the designated parameter be looked up in the
  overrides, else in the defaults.  When it is absent, \<open>None\<close>, not a plain sequence,
  empty, or not longer than \<open>max_items\<close>, \<open>batched_iter\<close> is \<open>iter\<close>: the same rows, the same
  single call, the same single session.  When it is a plain sequence longer than a
  positive \<open>max_items\<close>, the loop cuts it into the chunks \<open>loop_chunks\<close>: in order,
  non-overlapping (their concatenation is the sequence), none empty, none longer than
  \<open>max_items\<close>; the query function is called once per chunk, in chunk order, with the
  chunk in place of the sequence, all under one session; and the rows yielded are the
  transformed rows of these calls, concatenated in chunk order.  These are the rows of
  the unchunked fetch, in the same order and number, whenever the query function answers
  identifier by identifier (its rows for a sequence are the rows for its elements, one
  after the other); for other query functions they need not be.
\<close>

theorem batched_iter_chunks_or_degrades:
  assumes seq: "seq = (if overrides list_param \<noteq> None then param_get overrides list_param
                       else param_get (defaults f) list_param)"
  shows "(\<not> is_batchable_sequence seq \<or> seq_items seq = []
            \<or> int (length (seq_items seq)) \<le> max_items
          \<longrightarrow> batched_iter f list_param max_items overrides = fetcher_iter f overrides)
       \<and> (is_batchable_sequence seq \<and> 0 < max_items \<and> max_items < int (length (seq_items seq))
          \<longrightarrow> concat (loop_chunks (seq_items seq) max_items) = seq_items seq
            \<and> (\<forall>c \<in> set (loop_chunks (seq_items seq) max_items).
                   c \<noteq> [] \<and> int (length c) \<le> max_items)
            \<and> query_calls (batched_iter f list_param max_items overrides)
                = map (\<lambda>c. (defaults f ++ overrides)(list_param \<mapsto> PList c))
                      (loop_chunks (seq_items seq) max_items)
            \<and> sessions_opened (batched_iter f list_param max_items overrides) = 1
            \<and> raised (batched_iter f list_param max_items overrides) = None
            \<and> yielded (batched_iter f list_param max_items overrides)
                = concat (map (\<lambda>c. map (transformed f)
                                      (func f ((defaults f ++ overrides)(list_param \<mapsto> PList c))))
                              (loop_chunks (seq_items seq) max_items))
            \<and> ((\<forall>s. is_batchable_sequence s \<longrightarrow>
                      func f ((defaults f ++ overrides)(list_param \<mapsto> s))
                        = concat (map per_id (seq_items s)))
                \<longrightarrow> yielded (batched_iter f list_param max_items overrides)
                      = yielded (fetcher_iter f overrides)))"
proof (intro conjI impI)
  assume "\<not> is_batchable_sequence seq \<or> seq_items seq = []
            \<or> int (length (seq_items seq)) \<le> max_items"
  with seq show "batched_iter f list_param max_items overrides = fetcher_iter f overrides"
    by (rule batched_iter_degrades)
next
  assume a: "is_batchable_sequence seq \<and> 0 < max_items \<and> max_items < int (length (seq_items seq))"
  then have b: "is_batchable_sequence seq" and k: "0 < max_items"
    and n: "max_items < int (length (seq_items seq))" by simp_all
  let ?chunks = "loop_chunks (seq_items seq) max_items"
  let ?r = "batched_iter f list_param max_items overrides"
  have r: "?r = \<lparr> yielded = concat (map (\<lambda>ps. map (transformed f) (func f ps))
                          (map (\<lambda>c. (defaults f ++ overrides)(list_param \<mapsto> PList c)) ?chunks)),
                  sessions_opened = 1,
                  query_calls = map (\<lambda>c. (defaults f ++ overrides)(list_param \<mapsto> PList c)) ?chunks,
                  raised = None \<rparr>"
    using batched_iter_chunked [OF seq b n k] by (simp add: Let_def loop_chunks_def)
  show cc: "concat ?chunks = seq_items seq"
    unfolding loop_chunks_def using k by (rule concat_code_chunks)
  show "\<forall>c \<in> set ?chunks. c \<noteq> [] \<and> int (length c) \<le> max_items"
    unfolding loop_chunks_def using code_chunk_bounds [OF k] by blast
  show "query_calls ?r = map (\<lambda>c. (defaults f ++ overrides)(list_param \<mapsto> PList c)) ?chunks"
    by (subst r) simp
  show "sessions_opened ?r = 1" by (subst r) simp
  show "raised ?r = None" by (subst r) simp
  show y: "yielded ?r = concat (map (\<lambda>c. map (transformed f)
                                      (func f ((defaults f ++ overrides)(list_param \<mapsto> PList c))))
                              ?chunks)"
    by (subst r) (simp add: comp_def)
  show "yielded ?r = yielded (fetcher_iter f overrides)"
    if h: "\<forall>s. is_batchable_sequence s \<longrightarrow>
              func f ((defaults f ++ overrides)(list_param \<mapsto> s))
                = concat (map per_id (seq_items s))"
  proof -
    have "func f ((defaults f ++ overrides)(list_param \<mapsto> PList c)) = concat (map per_id c)" for c
      using h [rule_format, of "PList c"] by simp
    then have "yielded ?r = map (transformed f) (concat (map per_id (concat ?chunks)))"
      unfolding y by (simp add: concat_map_chunks)
    also have "\<dots> = map (transformed f) (concat (map per_id (seq_items seq)))"
      by (simp only: cc)
    also have "\<dots> = map (transformed f) (func f ((defaults f ++ overrides)(list_param \<mapsto> seq)))"
      using h [rule_format, OF b] by simp
    also have "\<dots> = yielded (fetcher_iter f overrides)"
      by (simp add: params_hold_seq [OF seq b] fetcher_iter_def Let_def)
    finally show ?thesis .
  qed
qed


theorem batched_iter_chunks_or_degrades_witness:
  "loop_chunks [''P1'', ''P2'', ''P3''] 2 = [[''P1'', ''P2''], [''P3'']]
   \<and> yielded (batched_iter (make_fetcher per_patient_query) ''patient_ids'' 2
                [''patient_ids'' \<mapsto> PList [''P1'', ''P2'', ''P3'']])
       = [DictData [(''patient_id'', VStr ''P1'')], DictData [(''patient_id'', VStr ''P2'')],
          DictData [(''patient_id'', VStr ''P3'')]]
   \<and> length (query_calls (batched_iter (make_fetcher per_patient_query) ''patient_ids'' 2
                [''patient_ids'' \<mapsto> PList [''P1'', ''P2'', ''P3'']])) = 2
   \<and> sessions_opened (batched_iter (make_fetcher per_patient_query) ''patient_ids'' 2
                [''patient_ids'' \<mapsto> PList [''P1'', ''P2'', ''P3'']]) = 1
   \<and> batched_iter (make_fetcher per_patient_query) ''patient_ids'' 3
                [''patient_ids'' \<mapsto> PList [''P1'', ''P2'', ''P3'']]
       = fetcher_iter (make_fetcher per_patient_query)
                [''patient_ids'' \<mapsto> PList [''P1'', ''P2'', ''P3'']]"
proof -
  let ?f = "make_fetcher per_patient_query"
  let ?ov = "[''patient_ids'' \<mapsto> PList [''P1'', ''P2'', ''P3'']]"
  let ?seq = "PList [''P1'', ''P2'', ''P3'']"
  have seq: "?seq = (if ?ov ''patient_ids'' \<noteq> None then param_get ?ov ''patient_ids''
                     else param_get (defaults ?f) ''patient_ids'')"
    by (simp add: param_get_def)
  have lc: "loop_chunks [''P1'', ''P2'', ''P3''] 2 = [[''P1'', ''P2''], [''P3'']]"
    by code_simp
  have big: "is_batchable_sequence ?seq \<and> (0::int) < 2 \<and> 2 < int (length (seq_items ?seq))"
    by simp
  have small: "\<not> is_batchable_sequence ?seq \<or> seq_items ?seq = []
               \<or> int (length (seq_items ?seq)) \<le> 3"
    by simp
  have per_id: "\<forall>s. is_batchable_sequence s \<longrightarrow>
          func ?f ((defaults ?f ++ ?ov)(''patient_ids'' \<mapsto> s))
            = concat (map (\<lambda>i. [DictData [(''patient_id'', VStr i)]]) (seq_items s))"
    by (simp add: make_fetcher_def per_patient_query_def param_get_def concat_map_singleton)
  note chunked = batched_iter_chunks_or_degrades [OF seq, of 2
                   "\<lambda>i. [DictData [(''patient_id'', VStr i)]]", THEN conjunct2, rule_format, OF big]
  note degraded = batched_iter_chunks_or_degrades [OF seq, of 3
                   "\<lambda>i. [DictData [(''patient_id'', VStr i)]]", THEN conjunct1, rule_format, OF small]
  have y: "yielded (batched_iter ?f ''patient_ids'' 2 ?ov) = yielded (fetcher_iter ?f ?ov)"
    using chunked per_id by blast
  have 1: "yielded (batched_iter ?f ''patient_ids'' 2 ?ov)
       = [DictData [(''patient_id'', VStr ''P1'')], DictData [(''patient_id'', VStr ''P2'')],
          DictData [(''patient_id'', VStr ''P3'')]]"
    unfolding y
    by (simp add: fetcher_iter_def make_fetcher_def per_patient_query_def param_get_def
          transformed_def)
  have "query_calls (batched_iter ?f ''patient_ids'' 2 ?ov)
          = map (\<lambda>c. (defaults ?f ++ ?ov)(''patient_ids'' \<mapsto> PList c))
                (loop_chunks (seq_items ?seq) 2)"
    using chunked by blast
  then have 2: "length (query_calls (batched_iter ?f ''patient_ids'' 2 ?ov)) = 2"
    by (simp add: lc)
  have 3: "sessions_opened (batched_iter ?f ''patient_ids'' 2 ?ov) = 1"
    using chunked by blast
  from lc 1 2 3 degraded show ?thesis by blast
qed


text \<open>
  The claim C7 as stated (the same rows as the unchunked fetch, for every query function)
  fails for a \<open>SELECT DISTINCT\<close>: two patients of the same sex give one row unchunked and
  one row per chunk with chunks of one.
\<close>

theorem batched_iter_distinct_query_counterexample:
  "yielded (batched_iter (make_fetcher distinct_sex_query) ''patient_ids'' 1
              [''patient_ids'' \<mapsto> PList [''P1'', ''P2'']])
     = [DictData [(''patient_sex'', VStr ''M'')], DictData [(''patient_sex'', VStr ''M'')]]
   \<and> yielded (fetcher_iter (make_fetcher distinct_sex_query)
              [''patient_ids'' \<mapsto> PList [''P1'', ''P2'']])
     = [DictData [(''patient_sex'', VStr ''M'')]]
   \<and> yielded (batched_iter (make_fetcher distinct_sex_query) ''patient_ids'' 1
              [''patient_ids'' \<mapsto> PList [''P1'', ''P2'']])
     \<noteq> yielded (fetcher_iter (make_fetcher distinct_sex_query)
              [''patient_ids'' \<mapsto> PList [''P1'', ''P2'']])"
proof -
  have up: "[0..<2] = [0, Suc 0]" by code_simp
  show ?thesis
    by (simp add: batched_iter_def fetcher_iter_def make_fetcher_def distinct_sex_query_def
          param_get_def transformed_def py_range_def chunk_at_def Let_def up)
qed

section \<open>The audit sink's identifier summary\<close>

lemma hash_id_salted:
  "id_hash_salt logger \<noteq> [] \<Longrightarrow>
   hash_id logger x = take 12 (sha256_hexdigest (utf8_encode (id_hash_salt logger @ x)))"
  by (simp add: hash_id_def hash_value_salted)

lemma AuditLogger_fields:
  assumes "AuditLogger path stream incl sample_size salt = Inr logger"
  shows "include_id_samples logger = incl" and "id_sample_size logger = sample_size"
    and "id_hash_salt logger = (if str_truthy salt then the salt else [])"
    and "hash_ids logger = (salt \<noteq> None)"
  using assms by (auto simp add: AuditLogger_def split: if_splits)


text \<open>
  For a logger as \<open>AuditLogger\<close> constructs it, the identifier summary of every record
  \<open>log_access\<close> writes is \<open>summarize_ids\<close> of the identifiers, and it always holds their
  count.  Without \<open>include_id_samples\<close> it holds nothing else.  With a non-empty salt it
  never holds the \<open>ids\<close> key, and what it holds under \<open>hashed_ids\<close>, when sampling is
  enabled and there are identifiers, is the first 12 hex characters of SHA-256 of the
  salt followed by the identifier, for each sampled identifier.  With no salt (\<open>None\<close>)
  the sample, if any, is raw, under \<open>ids\<close>.
\<close>

lemma summarize_ids_count_and_samples:
  assumes "AuditLogger path stream incl sample_size salt = Inr logger"
  shows "sum_count (summarize_ids logger ids) = length ids
       \<and> ar_ids (log_access logger actor action resource by ids fl ff inc added h out fmt rows)
           = summarize_ids logger ids
       \<and> (\<not> incl \<longrightarrow>
            summarize_ids logger ids
              = \<lparr> sum_count = length ids, sum_hashed_ids = None, sum_ids = None \<rparr>)
       \<and> (str_truthy salt \<longrightarrow>
            summarize_ids logger ids
              = \<lparr> sum_count = length ids,
                  sum_hashed_ids =
                    (if incl \<and> ids \<noteq> []
                     then Some (map (\<lambda>x. take 12 (sha256_hexdigest (utf8_encode (the salt @ x))))
                                    (py_slice_to ids sample_size))
                     else None),
                  sum_ids = None \<rparr>)
       \<and> (salt = None \<longrightarrow>
            summarize_ids logger ids
              = \<lparr> sum_count = length ids, sum_hashed_ids = None,
                  sum_ids = (if incl \<and> ids \<noteq> [] then Some (py_slice_to ids sample_size) else None) \<rparr>)"
proof -
  note fs = AuditLogger_fields [OF assms]
  have salted: "hash_id logger x = take 12 (sha256_hexdigest (utf8_encode (the salt @ x)))"
    if "str_truthy salt" for x
    using that fs(3) by (simp add: hash_id_salted str_truthy_def split: option.splits)
  have some: "salt \<noteq> None" if "str_truthy salt"
    using that by (cases salt) (simp_all add: str_truthy_def)
  show ?thesis
    by (auto simp add: summarize_ids_def log_access_def Let_def fs salted some)
qed

lemma summarize_ids_salted_example:
  "summarize_ids
      \<lparr> include_id_samples = True, id_sample_size = 3, id_hash_salt = ''pepper'',
        hash_ids = True \<rparr>
      [''P1'', ''P2'', ''P3'', ''P4'']
   = \<lparr> sum_count = 4,
       sum_hashed_ids = Some (map (\<lambda>x. take 12 (sha256_hexdigest (utf8_encode (''pepper'' @ x))))
                                  [''P1'', ''P2'', ''P3'']),
       sum_ids = None \<rparr>
   \<and> summarize_ids
      \<lparr> include_id_samples = False, id_sample_size = 3, id_hash_salt = [],
        hash_ids = False \<rparr>
      [''P1'', ''P2'', ''P3'', ''P4'']
   = \<lparr> sum_count = 4, sum_hashed_ids = None, sum_ids = None \<rparr>"
proof -
  have a: "AuditLogger None True True 3 (Some ''pepper'')
             = Inr \<lparr> include_id_samples = True, id_sample_size = 3, id_hash_salt = ''pepper'',
                     hash_ids = True \<rparr>"
    by (simp add: AuditLogger_def str_truthy_def)
  have b: "AuditLogger (Some ''logs/audit.jsonl'') False False 3 None
             = Inr \<lparr> include_id_samples = False, id_sample_size = 3, id_hash_salt = [],
                     hash_ids = False \<rparr>"
    by (simp add: AuditLogger_def str_truthy_def)
  from summarize_ids_count_and_samples [OF a, of "[''P1'', ''P2'', ''P3'', ''P4'']"]
       summarize_ids_count_and_samples [OF b, of "[''P1'', ''P2'', ''P3'', ''P4'']"]
  show ?thesis by (simp add: str_truthy_def py_slice_to_def)
qed


text \<open>
  With the empty string as \<open>id_hash_salt\<close> the sink is in hashing mode (\<open>hash_ids\<close> is
  \<open>id_hash_salt is not None\<close>), but \<open>hash_value\<close> returns its argument for an empty salt:
  the sample is written raw, under the key \<open>hashed_ids\<close>.
\<close>

lemma summarize_ids_empty_salt:
  assumes "AuditLogger path stream True sample_size (Some []) = Inr logger" and "ids \<noteq> []"
  shows "summarize_ids logger ids
           = \<lparr> sum_count = length ids, sum_hashed_ids = Some (py_slice_to ids sample_size),
               sum_ids = None \<rparr>"
proof -
  note fs = AuditLogger_fields [OF assms(1)]
  have "hash_id logger = (\<lambda>x. x)"
    using fs(3) by (simp add: hash_id_def hash_value_def str_truthy_def fun_eq_iff)
  with fs assms(2) show ?thesis
    by (simp add: summarize_ids_def Let_def)
qed

text \<open>
  Claim C1 at a failing input.  A sink constructed with sampling enabled and the empty
  string as its salt has \<open>hash_ids\<close> set; its summary of two identifiers holds the count
  and, under \<open>hashed_ids\<close>, the two identifiers themselves, not digests.
\<close>

theorem summarize_ids_empty_salt_writes_raw:
  "AuditLogger None True True 3 (Some [])
     = Inr \<lparr> include_id_samples = True, id_sample_size = 3, id_hash_salt = [],
             hash_ids = True \<rparr>
   \<and> summarize_ids
        \<lparr> include_id_samples = True, id_sample_size = 3, id_hash_salt = [],
          hash_ids = True \<rparr>
        [''P1'', ''P2'']
     = \<lparr> sum_count = 2, sum_hashed_ids = Some [''P1'', ''P2''], sum_ids = None \<rparr>"
  by (simp add: AuditLogger_def str_truthy_def summarize_ids_def Let_def py_slice_to_def
        hash_id_def hash_value_def)


section \<open>Shaping the table\<close>
lemma enforce_order_None: "enforce_order df None = df"
  by (simp add: enforce_order_def)

lemma enforce_order_columns:
  "df_columns (enforce_order df (Some req)) =
     (if \<exists>c \<in> set req. c \<in> set (df_columns df)
      then filter (\<lambda>c. c \<in> set (df_columns df)) req else req)"
  by (auto simp add: enforce_order_def Let_def df_loc_def filter_empty_conv)

lemma enforce_order_no_records: "enforce_order (DataFrame []) (Some req) = \<lparr> df_columns = req, df_rows = [] \<rparr>"
  by (simp add: enforce_order_def DataFrame_def fromkeys_def)


text \<open>
  Claim C5 at a failing input.  One record survives, with a sex and no age (the age was
  \<open>None\<close> and left out of the dump); sex and age are requested.  \<open>_enforce_order\<close> returns
  the table with the one column that some record has, not with the two requested ones.
\<close>

theorem enforce_order_drops_missing_column:
  "enforce_order (DataFrame [[(''patient_sex'', VStr ''M'')]])
                 (Some [''patient_sex'', ''patient_age_today''])
     = \<lparr> df_columns = [''patient_sex''], df_rows = [[(''patient_sex'', VStr ''M'')]] \<rparr>
   \<and> df_columns (enforce_order (DataFrame [[(''patient_sex'', VStr ''M'')]])
                                (Some [''patient_sex'', ''patient_age_today'']))
     \<noteq> [''patient_sex'', ''patient_age_today'']"
  by (simp add: enforce_order_def DataFrame_def fromkeys_def append_new_def df_loc_def)

end
